theory Spec2Isabelle
  imports Complex_Main "HOL-Library.Product_Lexorder" "HOL-Library.AList"
begin

text \<open>
  The research and intelligence pipeline of the content intelligence engine: retrieval
  with de-duplication and cache, content extraction, heuristic scoring, saturation and
  gap analysis, two-pass strategy synthesis with section splitting, and the orchestrator.
  Functions keep the names of the Python sources (without a leading underscore). What
  lies outside the program is one record, \<open>world\<close>; a log is a list of lines that
  each function takes and returns; a raised exception is a value \<open>Inl e\<close>.
\<close>

section \<open>Python strings\<close>

text \<open>
  A Python \<open>str\<close> is a sequence of code points. The embedding covers the texts whose
  code points lie below 256, one \<^typ>\<open>char\<close> per code point, so that \<^const>\<open>length\<close>
  is Python's \<open>len\<close>. The character classes below are Python's on that range.
\<close>

definition isspace :: "char \<Rightarrow> bool" where
  \<comment> \<open>\<open>str.isspace\<close>, also the class \<open>\s\<close> of \<open>re\<close> and what \<open>split()\<close> and \<open>strip()\<close> remove\<close>
  "isspace c =
     (let n = (of_char c :: nat)
      in (9 \<le> n \<and> n \<le> 13) \<or> (28 \<le> n \<and> n \<le> 32) \<or> n = 133 \<or> n = 160)"

definition isdigit :: "char \<Rightarrow> bool" where
  \<comment> \<open>the class \<open>\d\<close> of \<open>re\<close>: the decimal digits\<close>
  "isdigit c = (let n = (of_char c :: nat) in 48 \<le> n \<and> n \<le> 57)"

definition lower_char :: "char \<Rightarrow> char" where
  "lower_char c =
     (let n = (of_char c :: nat)
      in if (65 \<le> n \<and> n \<le> 90) \<or> (192 \<le> n \<and> n \<le> 222 \<and> n \<noteq> 215)
         then char_of (n + 32) else c)"

definition lower :: "string \<Rightarrow> string" where
  \<comment> \<open>\<open>s.lower()\<close>\<close>
  "lower s = map lower_char s"

fun split_acc :: "string \<Rightarrow> string \<Rightarrow> string list" where
  "split_acc cur [] = (if cur = [] then [] else [cur])"
| "split_acc cur (c # cs) =
     (if isspace c
      then (if cur = [] then split_acc [] cs else cur # split_acc [] cs)
      else split_acc (cur @ [c]) cs)"

definition split :: "string \<Rightarrow> string list" where
  \<comment> \<open>\<open>s.split()\<close>: the maximal runs of non-whitespace characters\<close>
  "split s = split_acc [] s"

definition lstrip :: "string \<Rightarrow> string" where
  "lstrip s = dropWhile isspace s"

definition rstrip :: "string \<Rightarrow> string" where
  "rstrip s = rev (dropWhile isspace (rev s))"

definition strip :: "string \<Rightarrow> string" where
  \<comment> \<open>\<open>s.strip()\<close>\<close>
  "strip s = rstrip (lstrip s)"

definition lstrip_chars :: "string \<Rightarrow> string \<Rightarrow> string" where
  \<comment> \<open>\<open>s.lstrip(chars)\<close>\<close>
  "lstrip_chars chars s = dropWhile (\<lambda>c. c \<in> set chars) s"

definition rstrip_chars :: "string \<Rightarrow> string \<Rightarrow> string" where
  \<comment> \<open>\<open>s.rstrip(chars)\<close>\<close>
  "rstrip_chars chars s = rev (dropWhile (\<lambda>c. c \<in> set chars) (rev s))"

fun startswith :: "string \<Rightarrow> string \<Rightarrow> bool" where
  \<comment> \<open>\<open>s.startswith(p)\<close>\<close>
  "startswith s [] = True"
| "startswith [] (p # ps) = False"
| "startswith (c # cs) (p # ps) = (if c = p then startswith cs ps else False)"

fun contains :: "string \<Rightarrow> string \<Rightarrow> bool" where
  \<comment> \<open>\<open>sub in s\<close>\<close>
  "contains [] sub = (sub = [])"
| "contains (c # cs) sub = (if startswith (c # cs) sub then True else contains cs sub)"

definition truthy :: "string \<Rightarrow> bool" where
  \<comment> \<open>the truth value of a string: non-empty\<close>
  "truthy s = (s \<noteq> [])"

fun digit_char :: "nat \<Rightarrow> char" where
  "digit_char n = char_of (48 + n mod 10)"

fun show_nat :: "nat \<Rightarrow> string" where
  \<comment> \<open>\<open>str(n)\<close> for a non-negative integer\<close>
  "show_nat n = (if n < 10 then [digit_char n] else show_nat (n div 10) @ [digit_char n])"

declare show_nat.simps [simp del]

section \<open>Research items\<close>

record item =
  title :: string
  snippet :: string
  url :: string
  content :: string
  score :: int
  summary :: string

section \<open>Heuristic scoring (research engine)\<close>

definition POWER_WORDS :: "string set" where
  "POWER_WORDS =
     {''ultimate'', ''secret'', ''proven'', ''explosive'', ''mistake'', ''breakdown'',
      ''step-by-step'', ''hack'', ''strategy'', ''deadly'', ''hidden'', ''crucial'',
      ''essential'', ''surprising'', ''shocking'', ''powerful'', ''critical'',
      ''guaranteed'', ''instant'', ''exclusive'', ''revolutionary'', ''incredible''}"

definition power_word_order :: "string list" where
  \<comment> \<open>one iteration order of the set, the one of the source text\<close>
  "power_word_order =
     [''ultimate'', ''secret'', ''proven'', ''explosive'', ''mistake'', ''breakdown'',
      ''step-by-step'', ''hack'', ''strategy'', ''deadly'', ''hidden'', ''crucial'',
      ''essential'', ''surprising'', ''shocking'', ''powerful'', ''critical'',
      ''guaranteed'', ''instant'', ''exclusive'', ''revolutionary'', ''incredible'']"

definition compute_heuristic_score :: "string list \<Rightarrow> string \<Rightarrow> string \<Rightarrow> int" where
  \<comment> \<open>\<open>ws\<close> is the order in which the loop meets the elements of the set \<open>POWER_WORDS\<close>;
      Python does not fix it\<close>
  "compute_heuristic_score ws ttl snip =
     (let combined = lower (ttl @ '' '' @ snip);
          score0 = 0;
          score1 = (if list_ex isdigit combined then score0 + 2 else score0);
          score2 = (if CHR ''?'' \<in> set combined then score1 + 1 else score1);
          score3 = (if length (split ttl) < 12 then score2 + 1 else score2)
      in fold (\<lambda>w sc. if contains combined w then sc + 1 else sc) ws score3)"

section \<open>Regular expressions\<close>

text \<open>
  The patterns of the sources are given to Python's \<open>re\<close>, a backtracking matcher. An
  expression is matched from a start position; \<open>ends\<close> lists the positions at which a
  match may end, in the order in which backtracking tries them (greedy repetition and
  option first, alternatives left to right). \<open>re.search\<close> takes the leftmost start
  that has a match and, there, the first end. Every pattern below is compiled with
  \<open>re.IGNORECASE\<close>, so literal text is compared after lower-casing.
\<close>

definition isword :: "char \<Rightarrow> bool" where
  \<comment> \<open>the class \<open>\w\<close>: alphanumeric characters and the underscore\<close>
  "isword c =
     (let n = (of_char c :: nat)
      in (48 \<le> n \<and> n \<le> 57) \<or> (65 \<le> n \<and> n \<le> 90) \<or> n = 95 \<or> (97 \<le> n \<and> n \<le> 122)
         \<or> n = 170 \<or> n = 178 \<or> n = 179 \<or> n = 181 \<or> n = 185 \<or> n = 186
         \<or> (188 \<le> n \<and> n \<le> 190) \<or> (192 \<le> n \<and> n \<le> 214)
         \<or> (216 \<le> n \<and> n \<le> 246) \<or> (248 \<le> n \<and> n \<le> 255))"

datatype cls = Space | Digit | Space_or_dash

fun in_cls :: "cls \<Rightarrow> char \<Rightarrow> bool" where
  "in_cls Space c = isspace c"
| "in_cls Digit c = isdigit c"
| "in_cls Space_or_dash c = (isspace c \<or> c = CHR ''-'')"

datatype rx =
    Lit string
  | One cls
  | Star cls
  | Plus cls
  | Opt rx
  | Seq rx rx
  | Alt rx rx
  | Word_boundary
  | Line_start

definition word_at :: "string \<Rightarrow> nat \<Rightarrow> bool" where
  "word_at s i = (i < length s \<and> isword (s ! i))"

definition at_boundary :: "string \<Rightarrow> nat \<Rightarrow> bool" where
  \<comment> \<open>\<open>\b\<close>: exactly one side of the position is a word character\<close>
  "at_boundary s i = ((0 < i \<and> word_at s (i - 1)) \<noteq> word_at s i)"

definition at_line_start :: "string \<Rightarrow> nat \<Rightarrow> bool" where
  \<comment> \<open>\<open>^\<close> under \<open>re.MULTILINE\<close>: the start of the text or just after a newline\<close>
  "at_line_start s i = (i = 0 \<or> (i \<le> length s \<and> s ! (i - 1) = CHR 0x0A))"

fun ci_prefix :: "string \<Rightarrow> string \<Rightarrow> bool" where
  \<comment> \<open>the literal is a prefix of the text, letters compared without case\<close>
  "ci_prefix [] s = True"
| "ci_prefix (p # ps) [] = False"
| "ci_prefix (p # ps) (c # cs) =
     (if lower_char c = lower_char p then ci_prefix ps cs else False)"

definition lit_at :: "string \<Rightarrow> string \<Rightarrow> nat \<Rightarrow> bool" where
  "lit_at w s i = ci_prefix w (drop i s)"

definition run :: "cls \<Rightarrow> string \<Rightarrow> nat \<Rightarrow> nat" where
  \<comment> \<open>how many characters of the class follow position \<open>i\<close>\<close>
  "run c s i = length (takeWhile (in_cls c) (drop i s))"

fun ends :: "rx \<Rightarrow> string \<Rightarrow> nat \<Rightarrow> nat list" where
  "ends (Lit w) s i = (if lit_at w s i then [i + length w] else [])"
| "ends (One c) s i = (if i < length s \<and> in_cls c (s ! i) then [i + 1] else [])"
| "ends (Star c) s i = map (\<lambda>k. i + k) (rev [0 ..< Suc (run c s i)])"
| "ends (Plus c) s i = map (\<lambda>k. i + k) (rev [1 ..< Suc (run c s i)])"
| "ends (Opt r) s i = ends r s i @ [i]"
| "ends (Seq a b) s i = concat (map (ends b s) (ends a s i))"
| "ends (Alt a b) s i = ends a s i @ ends b s i"
| "ends Word_boundary s i = (if at_boundary s i then [i] else [])"
| "ends Line_start s i = (if at_line_start s i then [i] else [])"

fun search_from :: "rx \<Rightarrow> string \<Rightarrow> nat list \<Rightarrow> (nat \<times> nat) option" where
  "search_from r s [] = None"
| "search_from r s (i # is) =
     (case ends r s i of [] \<Rightarrow> search_from r s is | e # _ \<Rightarrow> Some (i, e))"

definition search :: "rx \<Rightarrow> string \<Rightarrow> (nat \<times> nat) option" where
  \<comment> \<open>\<open>re.search\<close>: start and end of the match found, if any\<close>
  "search r s = search_from r s [0 ..< Suc (length s)]"

definition matches :: "rx \<Rightarrow> string \<Rightarrow> bool" where
  \<comment> \<open>the truth value of \<open>pattern.search(s)\<close>\<close>
  "matches r s = (search r s \<noteq> None)"

fun alts :: "rx \<Rightarrow> rx list \<Rightarrow> rx" where
  "alts r [] = r"
| "alts r (x # xs) = Alt r (alts x xs)"

fun seqs :: "rx \<Rightarrow> rx list \<Rightarrow> rx" where
  "seqs r [] = r"
| "seqs r (x # xs) = Seq r (seqs x xs)"

section \<open>Numbers\<close>

text \<open>
  A Python float is an IEEE 754 double, modelled by the rational number it denotes.
  \<open>double_of x\<close> is the double nearest to \<open>x\<close>, a tie going to the even mantissa: the
  result of a division, product or difference whose exact value is \<open>x\<close>, and of a
  literal. Doubles have 53 bits of mantissa and a smallest exponent of -1022; values
  beyond the largest double do not arise here. \<open>round(x, n)\<close> takes the double \<open>x\<close>
  to the nearest number of \<open>n\<close> decimals, a tie going to the even neighbour, and
  returns the double nearest to that. In gap detection the coverage is the double the
  division yields. Elsewhere a quotient or product that the source only compares is
  taken exactly, and the double is formed where the source rounds it.
\<close>

definition round_half_even :: "rat \<Rightarrow> int" where
  "round_half_even y =
     (let f = \<lfloor>y\<rfloor>; d = y - of_int f
      in if d < 1 / 2 then f else if 1 / 2 < d then f + 1 else if even f then f else f + 1)"

fun bit_length :: "nat \<Rightarrow> nat" where
  \<comment> \<open>the number of binary digits\<close>
  "bit_length n = (if n = 0 then 0 else Suc (bit_length (n div 2)))"

declare bit_length.simps [simp del]

definition pow2 :: "int \<Rightarrow> rat" where
  "pow2 k = (if 0 \<le> k then 2 ^ nat k else 1 / 2 ^ nat (- k))"

definition floor_log2 :: "rat \<Rightarrow> int" where
  \<comment> \<open>for \<open>0 < q\<close>: the \<open>e\<close> with \<open>2 ^ e \<le> q < 2 ^ (e + 1)\<close>\<close>
  "floor_log2 q =
     (if 1 \<le> q then int (bit_length (nat \<lfloor>q\<rfloor>)) - 1
      else - int (bit_length (nat (\<lceil>1 / q\<rceil> - 1))))"

definition double_of :: "rat \<Rightarrow> rat" where
  "double_of x =
     (if x = 0 then 0
      else (let e = max (floor_log2 \<bar>x\<bar>) (- 1022);
                u = pow2 (e - 52)
            in of_int (round_half_even (x / u)) * u))"

definition float_div :: "rat \<Rightarrow> rat \<Rightarrow> rat" where
  \<comment> \<open>\<open>a / b\<close> in floating point, also of two integers\<close>
  "float_div a b = double_of (a / b)"

definition float_mul :: "rat \<Rightarrow> rat \<Rightarrow> rat" where
  "float_mul a b = double_of (a * b)"

definition float_sub :: "rat \<Rightarrow> rat \<Rightarrow> rat" where
  "float_sub a b = double_of (a - b)"

definition py_round :: "nat \<Rightarrow> rat \<Rightarrow> rat" where
  \<comment> \<open>\<open>round(x, n)\<close> of a double \<open>x\<close>\<close>
  "py_round n x = double_of (of_int (round_half_even (x * 10 ^ n)) / 10 ^ n)"

fun join :: "string \<Rightarrow> string list \<Rightarrow> string" where
  \<comment> \<open>\<open>sep.join(xs)\<close>\<close>
  "join sep [] = []"
| "join sep [x] = x"
| "join sep (x # y # ys) = x @ sep @ join sep (y # ys)"

definition first_occurrences :: "'a list \<Rightarrow> 'a list" where
  "first_occurrences xs = rev (remdups (rev xs))"

definition most_common :: "nat \<Rightarrow> 'a list \<Rightarrow> ('a \<times> nat) list" where
  \<comment> \<open>\<open>Counter(xs).most_common(n)\<close>: by falling count, first met first among equals\<close>
  "most_common n xs =
     take n (sort_key (\<lambda>p. - int (snd p))
               (map (\<lambda>x. (x, count_list xs x)) (first_occurrences xs)))"

section \<open>Structural saturation (intelligence engine)\<close>

definition STOPWORDS :: "string set" where
  "STOPWORDS =
     {''the'', ''a'', ''an'', ''and'', ''or'', ''but'', ''in'', ''on'', ''at'', ''to'', ''for'',
      ''of'', ''with'', ''by'', ''from'', ''is'', ''it'', ''this'', ''that'', ''are'', ''was'',
      ''have'', ''has'', ''do'', ''does'', ''will'', ''would'', ''could'', ''should'', ''not'',
      ''no'', ''so'', ''if'', ''than'', ''very'', ''just'', ''about'', ''all'', ''also'', ''as'',
      ''any'', ''get'', ''how'', ''into'', ''more'', ''most'', ''new'', ''now'', ''only'',
      ''other'', ''our'', ''out'', ''some'', ''them'', ''there'', ''these'', ''they'', ''those'',
      ''up'', ''we'', ''what'', ''when'', ''where'', ''which'', ''who'', ''why'', ''you'',
      ''your'', ''one'', ''use'', ''like'', ''know'', ''see'', ''way'', ''even'', ''well'',
      ''back'', ''much'', ''many'', ''still'', ''come'', ''take'', ''say'', ''need'', ''think'',
      ''want'', ''give'', ''first'', ''last'', ''right'', ''good'', ''help'', ''try'',
      ''every'', ''keep'', ''work'', ''start'', ''top'', ''best'', ''make'', ''used''}"

definition list_re :: rx where
  \<comment> \<open>\<^verbatim>\<open>\b(\d+|top|best|list|ultimate)\b\<close>\<close>
  "list_re =
     seqs Word_boundary
       [alts (Plus Digit) [Lit ''top'', Lit ''best'', Lit ''list'', Lit ''ultimate''],
        Word_boundary]"

definition guide_re :: rx where
  \<comment> \<open>\<^verbatim>\<open>\b(guide|how[\s-]to|tutorial|step[\s-]by)\b\<close>\<close>
  "guide_re =
     seqs Word_boundary
       [alts (Lit ''guide'')
          [seqs (Lit ''how'') [One Space_or_dash, Lit ''to''],
           Lit ''tutorial'',
           seqs (Lit ''step'') [One Space_or_dash, Lit ''by'']],
        Word_boundary]"

definition compare_re :: rx where
  \<comment> \<open>\<^verbatim>\<open>\b(vs\.?|versus|compar|alternative)\b\<close>\<close>
  "compare_re =
     seqs Word_boundary
       [alts (Seq (Lit ''vs'') (Opt (Lit ''.'')))
          [Lit ''versus'', Lit ''compar'', Lit ''alternative''],
        Word_boundary]"

definition content_list_re :: rx where
  \<comment> \<open>\<^verbatim>\<open>(^\d+\.|top\s+\d+|best\s+\d+|in\s+this\s+guide|here\s+are\s+\d+|step\s+\d+|#\d+)\<close>,
      compiled with \<open>re.M\<close> too\<close>
  "content_list_re =
     alts (seqs Line_start [Plus Digit, Lit ''.''])
       [seqs (Lit ''top'') [Plus Space, Plus Digit],
        seqs (Lit ''best'') [Plus Space, Plus Digit],
        seqs (Lit ''in'') [Plus Space, Lit ''this'', Plus Space, Lit ''guide''],
        seqs (Lit ''here'') [Plus Space, Lit ''are'', Plus Space, Plus Digit],
        seqs (Lit ''step'') [Plus Space, Plus Digit],
        seqs (Lit ''#'') [Plus Digit]]"

record saturation =
  list_count :: nat
  guide_count :: nat
  comparison_count :: nat
  total :: nat
  list_percentage :: rat
  content_list_count :: "nat option"
  content_list_percentage :: rat
  dominant_format :: string
  is_saturated :: bool
  top_bigrams :: "(string \<times> nat) list"

definition title_snippet :: "item \<Rightarrow> string" where
  "title_snippet s = title s @ '' '' @ snippet s"

definition count_titles :: "item list \<Rightarrow> nat \<times> nat \<times> nat" where
  \<comment> \<open>the first loop: \<open>lc\<close>, \<open>gc\<close>, \<open>cc\<close>\<close>
  "count_titles research_data =
     fold (\<lambda>s (lc, gc, cc).
             let t = title_snippet s
             in (if matches list_re t then lc + 1 else lc,
                 if matches guide_re t then gc + 1 else gc,
                 if matches compare_re t then cc + 1 else cc))
          research_data (0, 0, 0)"

definition body_text :: "item \<Rightarrow> string" where
  \<comment> \<open>\<open>s.get("summary", "") or s.get("content", "")\<close>\<close>
  "body_text s = (if truthy (summary s) then summary s else content s)"

definition count_bodies :: "item list \<Rightarrow> nat \<times> nat" where
  \<comment> \<open>the second loop: \<open>clc\<close>, \<open>samples_text\<close>\<close>
  "count_bodies research_data =
     fold (\<lambda>s (clc, samples_text).
             let txt = body_text s
             in if \<not> truthy txt then (clc, samples_text)
                else (if matches content_list_re txt then clc + 1 else clc, samples_text + 1))
          research_data (0, 0)"

definition only_letters :: "string \<Rightarrow> string" where
  \<comment> \<open>\<^verbatim>\<open>re.sub(r'[^a-z\s]', ' ', s)\<close>\<close>
  "only_letters s =
     map (\<lambda>c. if (97 \<le> (of_char c :: nat) \<and> (of_char c :: nat) \<le> 122) \<or> isspace c
              then c else CHR '' '') s"

definition bigrams_of :: "item list \<Rightarrow> (string \<times> nat) list" where
  "bigrams_of research_data =
     (let texts = map title_snippet research_data;
          combined_text = only_letters (lower (join '' '' texts));
          words = filter (\<lambda>w. w \<notin> STOPWORDS \<and> 2 < length w) (split combined_text)
      in most_common 10 (map (\<lambda>(a, b). a @ '' '' @ b) (zip words (tl words))))"

definition analyze_structural_saturation :: "item list \<Rightarrow> saturation" where
  "analyze_structural_saturation research_data =
     (let total = length research_data
      in if total = 0
         then \<lparr>list_count = 0, guide_count = 0, comparison_count = 0, total = 0,
               list_percentage = 0, content_list_count = None, content_list_percentage = 0,
               dominant_format = ''Unknown'', is_saturated = False, top_bigrams = []\<rparr>
         else
           (case count_titles research_data of (lc, gc, cc) \<Rightarrow>
            case count_bodies research_data of (clc, samples_text) \<Rightarrow>
              let t_pct = (of_nat lc / of_nat total * 100 :: rat);
                  c_pct = (if samples_text \<noteq> 0
                           then of_nat clc / of_nat samples_text * 100 else 0);
                  combined_pct = max t_pct c_pct;
                  dominant =
                    (if 50 < combined_pct then ''Listicle saturation''
                     else if of_nat total * (4 / 10) < (of_nat gc :: rat)
                       then ''Guide/tutorial heavy''
                     else if of_nat total * (3 / 10) < (of_nat cc :: rat)
                       then ''Comparison heavy''
                     else ''Mixed formats'')
              in \<lparr>list_count = lc, guide_count = gc, comparison_count = cc, total = total,
                   list_percentage =
                     py_round 1 (float_mul (float_div (of_nat lc) (of_nat total)) 100),
                   content_list_count = Some clc,
                   content_list_percentage =
                     py_round 1
                       (if samples_text \<noteq> 0
                        then float_mul (float_div (of_nat clc) (of_nat samples_text)) 100
                        else 0),
                   dominant_format = dominant, is_saturated = (50 < combined_pct),
                   top_bigrams = bigrams_of research_data\<rparr>))"

section \<open>Gap detection (intelligence engine)\<close>

record gap_result =
  subdomain :: string  similarity :: rat
  is_gap :: bool  gap_method :: string

definition corpus_of :: "item list \<Rightarrow> string" where
  "corpus_of research_data =
     join '' '' (map (\<lambda>s. lower (title s @ '' '' @ snippet s @ '' '' @ content s
                                   @ '' '' @ summary s)) research_data)"

definition content_words :: "string \<Rightarrow> string list" where
  \<comment> \<open>\<open>words\<close>: the words of the subdomain longer than 2, lower-cased\<close>
  "content_words sd = map lower (filter (\<lambda>w. 2 < length w) (split sd))"

definition coverage :: "string \<Rightarrow> string \<Rightarrow> rat" where
  \<comment> \<open>\<open>cov\<close>: the double \<open>matches / len(words)\<close>, or the integer 0\<close>
  "coverage corpus sd =
     (let words = content_words sd;
          matches = length (filter (\<lambda>w. contains corpus w) words)
      in if words \<noteq> [] then float_div (of_nat matches) (of_nat (length words)) else 0)"

definition gap_entry :: "string \<Rightarrow> string \<Rightarrow> gap_result" where
  \<comment> \<open>the body of the loop over the subdomains; \<open>0.3\<close> is the double nearest to 3/10\<close>
  "gap_entry corpus sd =
     (let cov = coverage corpus sd
      in \<lparr>subdomain = sd, similarity = py_round 3 cov, is_gap = (cov < double_of (3 / 10)),
           gap_method = ''keyword''\<rparr>)"

definition keyword_gaps :: "item list \<Rightarrow> string list \<Rightarrow> gap_result list" where
  "keyword_gaps research_data subdomains =
     sort_key (\<lambda>x. (\<not> is_gap x, similarity x))
       (map (gap_entry (corpus_of research_data)) subdomains)"

definition detect_gaps :: "item list \<Rightarrow> string list \<Rightarrow> string list \<Rightarrow> gap_result list \<times> string list" where
  \<comment> \<open>returns the results and the log\<close>
  "detect_gaps research_data subdomains lg =
     (keyword_gaps research_data subdomains,
      lg @ [''Using keyword-based gap detection (embeddings disabled).''])"

section \<open>Errors and the environment\<close>

datatype exn =
    ValueError string
  | ConnectionError string
  | RuntimeError string
  | UnicodeDecodeError string

fun str_of :: "exn \<Rightarrow> string" where
  \<comment> \<open>\<open>str(e)\<close>: the message\<close>
  "str_of (ValueError m) = m"
| "str_of (ConnectionError m) = m"
| "str_of (RuntimeError m) = m"
| "str_of (UnicodeDecodeError m) = m"

text \<open>
  \<open>send_prompt\<close> returns the generated text or raises one of two errors: a
  \<open>ConnectionError\<close> when the backend cannot be reached, a \<open>RuntimeError\<close> when the
  generation fails.
\<close>

datatype backend_failure = Unreachable string | Generation_failed string

fun raised :: "backend_failure \<Rightarrow> exn" where
  "raised (Unreachable m) = ConnectionError m"
| "raised (Generation_failed m) = RuntimeError m"

text \<open>
  What a cache file holds, as \<open>json.load\<close> on a file opened as UTF-8 text sees it:
  bytes that do not decode (the decoder raises \<open>UnicodeDecodeError\<close> with a message),
  text that is not JSON (\<open>json.JSONDecodeError\<close>), a JSON value that is not a list, or a
  list of items.
\<close>

datatype body = Undecodable string | Malformed | Json_other | Json_items "item list"

record cache_file =
  mtime :: rat
  readable :: bool
  body :: body

text \<open>What \<open>requests\<close>, the HTML parser and \<open>_clean_text\<close> make of a URL.\<close>

datatype fetched = Fetch_failed | Not_html | Cleaned string

record competitive =
  gap :: string
  intensity_level :: string
  result_count :: int
  unique_domains :: nat

text \<open>
  Everything outside the program: the clock, the file system, the hash function, the
  random choice, the search providers, the pages and the text-generation backend. Each
  field is the outcome of one call of the source.
\<close>

record world =
  md5_hex :: "string \<Rightarrow> string"
  files :: "string \<Rightarrow> cache_file option"
  cache_writable :: bool
  clock_start :: rat
  clock_cache :: rat
  clock_save :: rat
  clock_end :: rat
  float_str :: "rat \<Rightarrow> string"
  list_repr :: "string list \<Rightarrow> string"
  pick :: nat
  ollama_available :: bool
  ddg_primary :: "string + item list"
  ddg_enriched :: "string + item list"
  bing_primary :: "string + item list"
  fetch :: "string \<Rightarrow> fetched"
  summary_reply :: "string \<Rightarrow> string \<Rightarrow> backend_failure + string"
  subdomain_reply :: "backend_failure + string list"
  intensity :: "string \<Rightarrow> competitive"
  insight_reply_1 :: "backend_failure + string"
  insight_reply_2 :: "backend_failure + string"
  draft_reply :: "backend_failure + string"
  refine_reply :: "backend_failure + string"

section \<open>Cache store (research engine)\<close>

definition CACHE_DIR :: string where
  "CACHE_DIR = ''cache''"

definition CACHE_MAX_AGE_HOURS :: rat where
  "CACHE_MAX_AGE_HOURS = 24"

definition cache_path :: "(string \<Rightarrow> string) \<Rightarrow> string \<Rightarrow> string \<Rightarrow> string" where
  "cache_path md5 niche platform =
     (let key = strip (lower niche) @ ''__'' @ strip (lower platform);
          h = take 12 (md5 key)
      in CACHE_DIR @ ''/'' @ h @ ''.json'')"

definition load_cache ::
  "(string \<Rightarrow> string) \<Rightarrow> (string \<Rightarrow> cache_file option) \<Rightarrow> rat \<Rightarrow> string \<Rightarrow> string \<Rightarrow> exn + item list"
where
  \<comment> \<open>\<open>now\<close> is \<open>time.time()\<close>; the handler catches \<open>json.JSONDecodeError\<close> and \<open>OSError\<close>\<close>
  "load_cache md5 fs now niche platform =
     (let path = cache_path md5 niche platform
      in case fs path of
           None \<Rightarrow> Inr []
         | Some f \<Rightarrow>
             (let age_h = (now - mtime f) / 3600
              in if CACHE_MAX_AGE_HOURS < age_h then Inr []
                 else if \<not> readable f then Inr []
                 else (case body f of
                         Undecodable m \<Rightarrow> Inl (UnicodeDecodeError m)
                       | Malformed \<Rightarrow> Inr []
                       | Json_other \<Rightarrow> Inr []
                       | Json_items data \<Rightarrow> (if data \<noteq> [] then Inr data else Inr []))))"

definition serializable :: "item \<Rightarrow> item" where
  "serializable d =
     \<lparr>title = title d, snippet = snippet d, url = url d, content = content d,
      score = score d, summary = summary d\<rparr>"

definition save_cache ::
  "(string \<Rightarrow> string) \<Rightarrow> bool \<Rightarrow> (string \<Rightarrow> cache_file option) \<Rightarrow> rat \<Rightarrow> string \<Rightarrow> string \<Rightarrow> item list
     \<Rightarrow> (string \<Rightarrow> cache_file option)"
where
  \<comment> \<open>a write that fails with \<open>OSError\<close> is swallowed and leaves the files as they were\<close>
  "save_cache md5 writable fs now niche platform data =
     (if \<not> writable then fs
      else fs(cache_path md5 niche platform \<mapsto>
                \<lparr>mtime = now, readable = True, body = Json_items (map serializable data)\<rparr>))"

section \<open>Content extraction (research engine)\<close>

definition MAX_CONTENT_LENGTH :: nat where
  "MAX_CONTENT_LENGTH = 1200"

definition MIN_CONTENT_LENGTH :: nat where
  "MIN_CONTENT_LENGTH = 300"

definition CONTENT_EXTRACT_LIMIT :: nat where
  "CONTENT_EXTRACT_LIMIT = 5"

fun rfind_from :: "char \<Rightarrow> string \<Rightarrow> int \<Rightarrow> int \<Rightarrow> int" where
  "rfind_from c [] i found = found"
| "rfind_from c (x # xs) i found = rfind_from c xs (i + 1) (if x = c then i else found)"

definition rfind :: "char \<Rightarrow> string \<Rightarrow> int" where
  \<comment> \<open>\<open>s.rfind(c)\<close>: the last index of the character, -1 when it does not occur\<close>
  "rfind c s = rfind_from c s 0 (- 1)"

definition extract_page_content :: "fetched \<Rightarrow> string" where
  "extract_page_content page =
     (case page of
        Fetch_failed \<Rightarrow> ''''
      | Not_html \<Rightarrow> ''''
      | Cleaned cleaned \<Rightarrow>
          if length cleaned < MIN_CONTENT_LENGTH then ''''
          else if MAX_CONTENT_LENGTH < length cleaned
          then (let trunc = take MAX_CONTENT_LENGTH cleaned;
                    lp = rfind CHR ''.'' trunc
                in if of_nat MAX_CONTENT_LENGTH * (5 / 10 :: rat) < of_int lp
                   then take (nat (lp + 1)) trunc else trunc)
          else cleaned)"

definition summarize_page ::
  "(string \<Rightarrow> string \<Rightarrow> backend_failure + string) \<Rightarrow> string \<Rightarrow> string \<Rightarrow> string"
where
  "summarize_page reply ttl cont =
     (if \<not> truthy cont \<or> length cont < 100 then ''''
      else case reply ttl (take 800 cont) of
             Inl _ \<Rightarrow> ''''
           | Inr summ \<Rightarrow>
               (let words = split summ
                in if 300 < length words then join '' '' (take 300 words) @ ''...''
                   else summ))"

section \<open>Retrieval (research engine)\<close>

definition NICHE_KEYWORD_MAP :: "(string \<times> string list) list" where
  "NICHE_KEYWORD_MAP =
     [(''founder'', [''founder'', ''startup'', ''indie'', ''entrepreneur'', ''bootstrapped'',
                     ''solopreneur'']),
      (''startup'', [''startup'', ''founder'', ''venture'', ''mvp'', ''fundraising'',
                     ''entrepreneur'']),
      (''indie'', [''indie'', ''hacker'', ''bootstrapped'', ''solopreneur'', ''maker'',
                   ''builder'']),
      (''entrepreneur'', [''entrepreneur'', ''founder'', ''business'', ''startup'', ''venture'']),
      (''creator'', [''creator'', ''content'', ''audience'', ''brand'', ''influencer'']),
      (''marketer'', [''marketer'', ''marketing'', ''growth'', ''funnel'', ''conversion'']),
      (''developer'', [''developer'', ''dev'', ''code'', ''programming'', ''software'']),
      (''freelancer'', [''freelancer'', ''freelance'', ''client'', ''contract'', ''agency''])]"

definition NICHE_QUERY_ENRICHMENT :: "(string \<times> string list) list" where
  "NICHE_QUERY_ENRICHMENT =
     [(''founder'', [''founder workflow'', ''startup execution'', ''indie hacker'',
                     ''startup growth'']),
      (''startup'', [''startup operations'', ''early stage growth'', ''startup toolkit'']),
      (''indie'', [''indie hacker tools'', ''bootstrapped growth'', ''solo builder'']),
      (''entrepreneur'', [''entrepreneur systems'', ''business automation'']),
      (''creator'', [''creator tools'', ''content workflow'', ''creator economy'']),
      (''marketer'', [''marketing automation'', ''growth strategy'']),
      (''developer'', [''dev tools'', ''developer workflow'']),
      (''freelancer'', [''freelance workflow'', ''client management''])]"

fun detect_in :: "(string \<times> string list) list \<Rightarrow> string \<Rightarrow> string" where
  "detect_in [] niche_l = ''''"
| "detect_in ((cat, kws) # rest) niche_l =
     (if list_ex (\<lambda>kw. contains niche_l kw) kws then cat else detect_in rest niche_l)"

definition detect_niche_category :: "string \<Rightarrow> string" where
  "detect_niche_category niche = detect_in NICHE_KEYWORD_MAP (lower niche)"

definition build_queries :: "nat \<Rightarrow> string \<Rightarrow> string \<Rightarrow> string \<times> string" where
  \<comment> \<open>the two queries; \<open>k\<close> decides \<open>random.choice\<close>\<close>
  "build_queries k niche platform =
     (let cat = detect_niche_category niche;
          primary = niche @ '' '' @ platform @ '' content strategy 2024''
      in case (if truthy cat then map_of NICHE_QUERY_ENRICHMENT cat else None) of
           Some choices \<Rightarrow>
             (primary, niche @ '' '' @ choices ! (k mod length choices) @ '' '' @ platform)
         | None \<Rightarrow>
             (primary, join '' '' (take 3 (split niche)) @ '' '' @ platform @ '' tips''))"

definition normalize_url :: "string \<Rightarrow> string" where
  \<comment> \<open>\<open>r["url"].rstrip("/").lower()\<close>\<close>
  "normalize_url u = lower (rstrip_chars ''/'' u)"

definition dedup_step :: "item \<Rightarrow> string set \<times> item list \<Rightarrow> string set \<times> item list" where
  "dedup_step r = (\<lambda>(seen, unique).
     let n = normalize_url (url r)
     in if n \<notin> seen then (insert n seen, unique @ [r]) else (seen, unique))"

definition dedup :: "item list \<Rightarrow> item list" where
  "dedup results = snd (fold dedup_step results ({}, []))"

definition provider_call ::
  "string \<Rightarrow> string \<Rightarrow> string + item list \<Rightarrow> item list \<times> string list \<Rightarrow> item list \<times> string list"
where
  \<comment> \<open>one \<open>try\<close> block: extend the results and log, or log the \<open>RuntimeError\<close>\<close>
  "provider_call ok_prefix fail_prefix outcome = (\<lambda>(all_results, lg).
     case outcome of
       Inr parsed \<Rightarrow>
         (all_results @ parsed, lg @ [ok_prefix @ show_nat (length parsed) @ '' results.''])
     | Inl err \<Rightarrow> (all_results, lg @ [fail_prefix @ err]))"

definition quoted :: "string \<Rightarrow> string" where
  "quoted q = [CHR 0x27] @ q @ [CHR 0x27]"

definition gather_results ::
  "world \<Rightarrow> string \<Rightarrow> string \<Rightarrow> string list \<Rightarrow> item list \<times> string list"
where
  \<comment> \<open>the provider calls of \<open>research_niche\<close>: \<open>all_results\<close> and the log\<close>
  "gather_results w niche platform lg =
     (case build_queries (pick w) niche platform of (q0, q1) \<Rightarrow>
      case provider_call ''DDG returned '' ''DDG failed: '' (ddg_primary w)
             ([], lg @ [''DDG search: '' @ quoted q0]) of (res1, lg1) \<Rightarrow>
      case (if length res1 < 5
            then provider_call ''DDG enriched: '' ''DDG enriched failed: ''
                   (ddg_enriched w) (res1, lg1 @ [''DDG enriched: '' @ quoted q1])
            else (res1, lg1)) of (res2, lg2) \<Rightarrow>
      if length res2 < 5
      then provider_call ''Bing returned '' ''Bing failed: ''
             (bing_primary w) (res2, lg2 @ [''Bing fallback...''])
      else (res2, lg2))"

definition enrich_results :: "world \<Rightarrow> item list \<Rightarrow> string list \<Rightarrow> item list \<times> string list" where
  \<comment> \<open>scoring, sorting, extraction and summarization in \<open>research_niche\<close>\<close>
  "enrich_results w deduped lg =
     (let deduped = map (\<lambda>r. r\<lparr>score := compute_heuristic_score power_word_order
                                          (title r) (snippet r),
                                content := '''', summary := ''''\<rparr>) deduped;
          deduped = sort_key (\<lambda>x. - score x) deduped;
          extract_n = min CONTENT_EXTRACT_LIMIT (length deduped);
          deduped =
            map (\<lambda>r. let c = extract_page_content (fetch w (url r))
                     in if truthy c then r\<lparr>content := c\<rparr> else r)
                (take extract_n deduped)
            @ drop extract_n deduped;
          content_ok = length (filter (\<lambda>r. truthy (content r)) deduped);
          lg = lg @ [''Extracted content from '' @ show_nat content_ok @ ''/''
                     @ show_nat extract_n @ '' pages.''];
          deduped =
            map (\<lambda>r. if truthy (content r)
                     then r\<lparr>summary := summarize_page (summary_reply w)
                                           (title r) (content r)\<rparr>
                     else r) deduped;
          summary_count = length (filter (\<lambda>r. truthy (summary r)) deduped)
      in (deduped, lg @ [''Summarized '' @ show_nat summary_count @ '' pages.'']))"

definition research_niche ::
  "world \<Rightarrow> string \<Rightarrow> string \<Rightarrow> string list
     \<Rightarrow> (exn + item list) \<times> string list \<times> (string \<Rightarrow> cache_file option)"
where
  \<comment> \<open>returns the outcome, the log and the files\<close>
  "research_niche w niche platform lg =
     (case load_cache (md5_hex w) (files w) (clock_cache w) niche platform of
        Inl e \<Rightarrow> (Inl e, lg, files w)
      | Inr cached \<Rightarrow>
          if cached \<noteq> []
          then (Inr cached,
                lg @ [''Loaded '' @ show_nat (length cached) @ '' results from cache.''],
                files w)
          else
            (case gather_results w niche platform lg of (all_results, lg) \<Rightarrow>
             let deduped = dedup all_results
             in if deduped = []
                then (Inr [], lg @ [''No results from any search engine.''], files w)
                else
                  (let deduped = take 12 deduped
                   in case enrich_results w deduped lg of (deduped, lg) \<Rightarrow>
                        (Inr deduped, lg,
                         save_cache (md5_hex w) (cache_writable w) (files w) (clock_save w)
                           niche platform deduped))))"

section \<open>Strategy synthesis (strategy engine)\<close>

definition header :: "string \<Rightarrow> string \<Rightarrow> rx" where
  \<comment> \<open>\<^verbatim>\<open>(?:##?\s*N\.?\s*)?NAME\<close>\<close>
  "header num name =
     Seq (Opt (seqs (Lit ''#'') [Opt (Lit ''#''), Star Space, Lit num, Opt (Lit ''.''),
                                 Star Space]))
         (Lit name)"

definition patterns :: "(string \<times> rx) list" where
  "patterns =
     [(''positioning'', header ''1'' ''STRATEGIC POSITIONING''),
      (''pillars'', header ''2'' ''CONTENT PILLARS''),
      (''hooks'', header ''3'' ''OPTIMIZED HOOKS''),
      (''scripts'', header ''4'' ''SHORT-FORM CONTENT SCRIPTS''),
      (''ctas'', header ''5'' ''CTA VARIATIONS''),
      (''calendar'', header ''6'' ''7-DAY CONTENT CALENDAR'')]"

fun locate :: "string \<Rightarrow> (string \<times> rx) list \<Rightarrow> (nat \<times> string \<times> nat) list" where
  \<comment> \<open>the loop that collects \<open>(m.start(), key, m.end())\<close> for the patterns found\<close>
  "locate raw [] = []"
| "locate raw ((key, pat) # rest) =
     (case search pat raw of
        None \<Rightarrow> locate raw rest
      | Some (st, en) \<Rightarrow> (st, key, en) # locate raw rest)"

definition boundaries :: "string \<Rightarrow> (nat \<times> string \<times> nat) list" where
  "boundaries raw = locate raw patterns"

definition slice :: "nat \<Rightarrow> nat \<Rightarrow> string \<Rightarrow> string" where
  \<comment> \<open>\<open>s[a:b]\<close> for indices from 0; empty when \<open>b \<le> a\<close>\<close>
  "slice a b s = take (b - a) (drop a s)"

definition section_text :: "string \<Rightarrow> nat \<Rightarrow> nat \<Rightarrow> string" where
  \<comment> \<open>\<open>raw[hend:end].strip().lstrip(":-").strip()\<close>\<close>
  "section_text raw hend stop = strip (lstrip_chars '':-'' (strip (slice hend stop raw)))"

fun fill_sections ::
  "string \<Rightarrow> (nat \<times> string \<times> nat) list \<Rightarrow> (string \<times> string) list \<Rightarrow> (string \<times> string) list"
where
  \<comment> \<open>the loop over the sorted boundaries; the dictionary keeps insertion order\<close>
  "fill_sections raw [] sections = sections"
| "fill_sections raw ((start, key, hend) # rest) sections =
     (let stop = (case rest of [] \<Rightarrow> length raw | (next_start, _, _) # _ \<Rightarrow> next_start)
      in fill_sections raw rest (AList.update key (section_text raw hend stop) sections))"

definition split_sections :: "string \<Rightarrow> (string \<times> string) list" where
  "split_sections raw =
     (let bs = boundaries raw
      in if length bs < 3 then [(''full_strategy'', raw)]
         else fill_sections raw (sort_key fst bs) [])"

text \<open>
  The prompts of the two passes are built from the brief and the analysis results and
  sent to the backend. The replies are the environment's, so the prompt texts do not
  enter the model.
\<close>

definition refine_pass :: "world \<Rightarrow> string \<Rightarrow> string list \<Rightarrow> string \<times> string list" where
  \<comment> \<open>the \<open>try\<close> block of pass 2: \<open>final\<close> and the log\<close>
  "refine_pass w raw lg =
     (case refine_reply w of
        Inr refined \<Rightarrow>
          if truthy refined
             \<and> of_nat (length raw) * (5 / 10 :: rat) < of_nat (length (strip refined))
          then (refined, lg @ [''Pass 2: '' @ show_nat (length refined) @ '' chars (refined).''])
          else (raw, lg @ [''Pass 2 too short. Using Pass 1.''])
      | Inl _ \<Rightarrow> (raw, lg @ [''Pass 2 failed. Using Pass 1.'']))"

definition generate_strategy ::
  "world \<Rightarrow> string list \<Rightarrow> (exn + (string \<times> string) list) \<times> string list"
where
  \<comment> \<open>returns the sections or the error raised, and the log\<close>
  "generate_strategy w lg =
     (let lg = lg @ [''Strategy Pass 1: Generating...'']
      in case draft_reply w of
           Inl f \<Rightarrow> (Inl (raised f), lg)
         | Inr raw \<Rightarrow>
             if \<not> truthy raw \<or> length (strip raw) < 100
             then (Inl (RuntimeError ''Strategy Pass 1 insufficient output.''), lg)
             else
               (let lg = lg @ [''Pass 1: '' @ show_nat (length raw) @ '' chars.''];
                    lg = lg @ [''Strategy Pass 2: Critique and refine...'']
                in case refine_pass w raw lg of (final, lg) \<Rightarrow>
                     let sections = split_sections final;
                         sections = AList.update ''_raw'' final sections;
                         sections = AList.update ''_pass1'' raw sections
                     in (Inr sections, lg)))"

section \<open>Alignment, keywords and signal (research and intelligence engines)\<close>

definition RESEARCH_STOPWORDS :: "string set" where
  \<comment> \<open>\<open>STOPWORDS\<close> of the research engine\<close>
  "RESEARCH_STOPWORDS =
     {''the'', ''a'', ''an'', ''and'', ''or'', ''but'', ''in'', ''on'', ''at'', ''to'',
      ''for'', ''of'', ''with'', ''by'', ''from'', ''is'', ''it'', ''its'', ''this'',
      ''that'', ''are'', ''was'', ''were'', ''be'', ''been'', ''being'', ''have'', ''has'',
      ''had'', ''do'', ''does'', ''did'', ''will'', ''would'', ''could'', ''should'',
      ''may'', ''might'', ''can'', ''shall'', ''not'', ''no'', ''nor'', ''so'', ''if'',
      ''then'', ''than'', ''too'', ''very'', ''just'', ''about'', ''above'', ''after'',
      ''again'', ''all'', ''also'', ''am'', ''as'', ''any'', ''because'', ''before'',
      ''below'', ''between'', ''both'', ''each'', ''few'', ''get'', ''got'', ''he'',
      ''her'', ''here'', ''him'', ''his'', ''how'', ''i'', ''into'', ''me'', ''more'',
      ''most'', ''my'', ''new'', ''now'', ''only'', ''other'', ''our'', ''out'', ''over'',
      ''own'', ''same'', ''she'', ''some'', ''such'', ''them'', ''there'', ''these'',
      ''they'', ''those'', ''through'', ''under'', ''up'', ''us'', ''we'', ''what'',
      ''when'', ''where'', ''which'', ''while'', ''who'', ''whom'', ''why'', ''you'',
      ''your'', ''one'', ''two'', ''use'', ''used'', ''using'', ''make'', ''like'',
      ''know'', ''see'', ''way'', ''even'', ''well'', ''back'', ''much'', ''many'',
      ''still'', ''come'', ''take'', ''say'', ''said'', ''need'', ''look'', ''think'',
      ''want'', ''give'', ''first'', ''last'', ''long'', ''great'', ''little'', ''right'',
      ''good'', ''big'', ''high'', ''different'', ''small'', ''large'', ''next'',
      ''early'', ''young'', ''important'', ''let'', ''thing'', ''things'', ''go'',
      ''going'', ''went'', ''really'', ''read'', ''best'', ''top'', ''help'', ''try'',
      ''every'', ''keep'', ''work'', ''working'', ''put'', ''end'', ''start'', ''turn''}"

record alignment =
  aligned_count :: nat
  total_count :: nat
  alignment_ratio :: rat
  drift_detected :: bool
  drift_warning :: "string option"
  alignment_keywords :: "string list"

definition alignment_keywords_of :: "string \<Rightarrow> string list" where
  \<comment> \<open>\<open>_alignment_keywords\<close>\<close>
  "alignment_keywords_of niche =
     (let cat = detect_niche_category niche
      in case (if truthy cat then map_of NICHE_KEYWORD_MAP cat else None) of
           Some kws \<Rightarrow> kws
         | None \<Rightarrow> filter (\<lambda>w. 3 < length w \<and> w \<notin> RESEARCH_STOPWORDS) (split (lower niche)))"

definition check_niche_alignment ::
  "(string list \<Rightarrow> string) \<Rightarrow> item list \<Rightarrow> string \<Rightarrow> alignment"
where
  \<comment> \<open>\<open>repr\<close> prints a list of strings as Python's \<open>format\<close> does\<close>
  "check_niche_alignment repr research_data niche =
     (let kws = alignment_keywords_of niche
      in if kws = []
         then \<lparr>aligned_count = length research_data, total_count = length research_data,
               alignment_ratio = 1, drift_detected = False, drift_warning = None,
               alignment_keywords = []\<rparr>
         else
           (let aligned =
                  length (filter (\<lambda>s. list_ex (\<lambda>kw. contains
                                     (lower (title s @ '' '' @ snippet s @ '' '' @ content s)) kw)
                                   kws) research_data);
                total = length research_data;
                ratio = (if 0 < total then of_nat aligned / of_nat total else (0 :: rat));
                drift = (ratio < 4 / 10);
                warning =
                  (if drift
                   then Some (''Drift: only '' @ show_nat aligned @ ''/'' @ show_nat total
                              @ '' results match niche keywords '' @ repr (take 5 kws) @ ''.'')
                   else None)
            in \<lparr>aligned_count = aligned, total_count = total,
                 alignment_ratio =
                   py_round 2 (if 0 < total then float_div (of_nat aligned) (of_nat total)
                               else 0),
                 drift_detected = drift,
                 drift_warning = warning, alignment_keywords = take 5 kws\<rparr>))"

definition analyze_keyword_frequency :: "item list \<Rightarrow> (string \<times> nat) list" where
  \<comment> \<open>with the default \<open>top_n = 15\<close>\<close>
  "analyze_keyword_frequency research_data =
     (let texts = concat (map (\<lambda>s. filter truthy [title s, snippet s, content s]) research_data);
          combined = only_letters (lower (join '' '' texts));
          words = filter (\<lambda>w. w \<notin> RESEARCH_STOPWORDS \<and> 2 < length w) (split combined)
      in most_common 15 words)"

record signal =
  total_urls :: nat
  urls_with_content :: nat
  urls_with_summaries :: nat
  total_content_chars :: nat
  avg_heuristic_score :: rat
  confidence :: string

definition assess_signal :: "item list \<Rightarrow> signal" where
  "assess_signal research_data =
     (let total = length research_data;
          with_content = length (filter (\<lambda>r. truthy (strip (content r))) research_data);
          with_summary = length (filter (\<lambda>r. truthy (strip (summary r))) research_data);
          total_chars = sum_list (map (\<lambda>r. length (content r)) research_data);
          scores = map score research_data;
          avg = (if scores \<noteq> []
                 then float_div (of_int (sum_list scores)) (of_nat (length scores)) else 0);
          conf = (if 5000 < total_chars then ''HIGH''
                  else if 2000 < total_chars then ''MEDIUM'' else ''LOW'')
      in \<lparr>total_urls = total, urls_with_content = with_content,
           urls_with_summaries = with_summary, total_content_chars = total_chars,
           avg_heuristic_score = py_round 1 avg, confidence = conf\<rparr>)"

section \<open>Subdomains, competition and insights (intelligence engine)\<close>

definition fallback_subdomains :: "string list" where
  "fallback_subdomains =
     [''getting started'', ''common mistakes'', ''advanced strategies'',
      ''tools and resources'', ''case studies'', ''industry trends'',
      ''monetization'', ''audience building'', ''content creation'',
      ''community building'', ''automation'', ''analytics and metrics'',
      ''collaboration'', ''personal branding'', ''scaling operations'']"

definition generate_dynamic_subdomains :: "world \<Rightarrow> string list \<Rightarrow> string list \<times> string list" where
  \<comment> \<open>returns the subdomains and the log; \<open>subdomain_reply\<close> is what
      \<open>send_prompt_for_list\<close> returns or raises\<close>
  "generate_dynamic_subdomains w lg =
     (case subdomain_reply w of
        Inr items \<Rightarrow>
          (let cleaned =
                 take 15 (map (\<lambda>i. rstrip_chars ''.'' (strip i))
                            (filter (\<lambda>i. truthy (strip i) \<and> 2 \<le> length (split i)
                                          \<and> length (split i) \<le> 8 \<and> length i < 100) items))
           in if length cleaned < 5
              then (fallback_subdomains, lg @ [''LLM returned few subdomains. Using fallback.''])
              else (cleaned,
                    lg @ [''Generated '' @ show_nat (length cleaned) @ '' dynamic subdomains.'']))
      | Inl f \<Rightarrow>
          (fallback_subdomains,
           lg @ [''Subdomain generation failed: '' @ take 60 (str_of (raised f))
                 @ ''. Using fallback.'']))"

definition run_competitive_checks ::
  "world \<Rightarrow> gap_result list \<Rightarrow> string list \<Rightarrow> competitive list \<times> string list"
where
  \<comment> \<open>\<open>intensity\<close> is what \<open>check_competitive_intensity\<close> returns for a gap phrase\<close>
  "run_competitive_checks w gap_results lg =
     (let gaps = filter is_gap gap_results
      in if gaps = [] then ([], lg)
         else
           (let check_n = min 5 (length gaps)
            in (map (\<lambda>g. intensity w (subdomain g)) (take check_n gaps),
                lg @ [''Checking competitive intensity for '' @ show_nat check_n @ '' gaps.''])))"

definition extract_insights :: "world \<Rightarrow> string list \<Rightarrow> (exn + string) \<times> string list" where
  \<comment> \<open>two backend calls; an error of either is not caught here\<close>
  "extract_insights w lg =
     (let lg = lg @ [''Intelligence Call 1: Hooks, structure, CTAs'']
      in case insight_reply_1 w of
           Inl f \<Rightarrow> (Inl (raised f), lg)
         | Inr insights1 \<Rightarrow>
             (let lg = lg @ [''Intelligence Call 2: Tone, themes, positioning'']
              in case insight_reply_2 w of
                   Inl f \<Rightarrow> (Inl (raised f), lg)
                 | Inr insights2 \<Rightarrow>
                     (Inr (''=== STRUCTURAL ANALYSIS ==='' @ [CHR 0x0A, CHR 0x0A] @ insights1
                           @ [CHR 0x0A, CHR 0x0A] @ ''=== THEMATIC ANALYSIS ===''
                           @ [CHR 0x0A, CHR 0x0A] @ insights2), lg)))"

section \<open>Pipeline orchestrator (pipeline)\<close>

record client_profile =
  profile_niche :: string
  profile_platform :: string
  target_audience :: string
  business_goal :: string

record meta =
  meta_subdomains :: "string list option"
  meta_elapsed_seconds :: "rat option"
  meta_research_count :: "nat option"
  meta_pages_with_content :: "nat option"
  meta_pages_summarized :: "nat option"
  meta_gaps_found :: "nat option"
  meta_total_subdomains :: "nat option"
  meta_error :: "string option"

record sample =
  sample_title :: string
  sample_snippet :: string
  sample_url :: string
  sample_score :: int
  has_content :: bool
  has_summary :: bool

text \<open>
  The result dictionary. A field that starts as an empty dictionary is \<open>None\<close> until
  its stage fills it; a key of \<open>meta\<close> is \<open>None\<close> while absent. The entry
  \<open>pipeline_log\<close> is the list \<open>log\<close> itself, so it holds whatever has been logged.
\<close>

record pipeline_result =
  profile :: client_profile
  pipeline_log :: "string list"
  signal_strength :: "signal option"
  niche_alignment :: "alignment option"
  keyword_analysis :: "(string \<times> nat) list"
  saturation_report :: "saturation option"
  semantic_gap_analysis :: "gap_result list"
  competitive_intensity :: "competitive list"
  content_intelligence :: string
  content_strategy :: "(string \<times> string) list"
  meta :: meta
  research_samples :: "sample list option"

text \<open>
  What a run does to the outside, in order: the messages it hands to the progress
  callback (when there is one) and the stages it enters that reach the backend, the
  network or the disk.
\<close>

datatype call =
    Progress string
  | Ollama_check
  | Research
  | Subdomain_generation
  | Competitive_checks
  | Insight_extraction
  | Strategy_generation

definition blank :: "string \<Rightarrow> bool" where
  \<comment> \<open>\<open>not val or not val.strip()\<close>\<close>
  "blank val = (\<not> truthy val \<or> \<not> truthy (strip val))"

fun validate :: "(string \<times> string) list \<Rightarrow> exn option" where
  "validate [] = None"
| "validate ((name, val) # rest) =
     (if blank val then Some (ValueError (name @ '' cannot be empty.'')) else validate rest)"

definition initial_result :: "string \<Rightarrow> string \<Rightarrow> string \<Rightarrow> string \<Rightarrow> pipeline_result" where
  "initial_result niche platform audience goal =
     \<lparr>profile = \<lparr>profile_niche = niche, profile_platform = platform,
                  target_audience = audience, business_goal = goal\<rparr>,
      pipeline_log = [], signal_strength = None, niche_alignment = None,
      keyword_analysis = [], saturation_report = None, semantic_gap_analysis = [],
      competitive_intensity = [], content_intelligence = '''', content_strategy = [],
      meta = \<lparr>meta_subdomains = None, meta_elapsed_seconds = None,
               meta_research_count = None, meta_pages_with_content = None,
               meta_pages_summarized = None, meta_gaps_found = None,
               meta_total_subdomains = None, meta_error = None\<rparr>,
      research_samples = None\<rparr>"

definition show_bool :: "bool \<Rightarrow> string" where
  "show_bool b = (if b then ''True'' else ''False'')"

definition elapsed :: "world \<Rightarrow> rat" where
  \<comment> \<open>\<open>round(time.time() - start_time, 1)\<close>\<close>
  "elapsed w = py_round 1 (float_sub (clock_end w) (clock_start w))"

definition sample_of :: "item \<Rightarrow> sample" where
  "sample_of r =
     \<lparr>sample_title = title r, sample_snippet = take 200 (snippet r), sample_url = url r,
      sample_score = score r, has_content = truthy (strip (content r)),
      has_summary = truthy (strip (summary r))\<rparr>"

text \<open>
  The \<open>try\<close> block in two parts. Each returns the exception raised, if any, with the
  result dictionary, the log and the calls as they stand at that moment.
\<close>

definition analysis_stages ::
  "world \<Rightarrow> string \<Rightarrow> item list \<Rightarrow> pipeline_result \<Rightarrow> string list \<Rightarrow> call list
     \<Rightarrow> exn option \<times> pipeline_result \<times> string list \<times> call list"
where
  \<comment> \<open>steps 2 to 10\<close>
  "analysis_stages w niche research_data result lg calls =
     (let calls = calls @ [Progress ''Analyzing market alignment...''];
          lg = lg @ [''Step 2: Niche alignment check...''];
          alignment = check_niche_alignment (list_repr w) research_data niche;
          result = result\<lparr>niche_alignment := Some alignment\<rparr>;
          lg = (if drift_detected alignment
                then lg @ [''WARNING: '' @ (case drift_warning alignment of
                                              Some m \<Rightarrow> m | None \<Rightarrow> ''None'')]
                else lg);
          calls = calls @ [Progress ''Extracting key themes...''];
          lg = lg @ [''Step 3: Keyword analysis...''];
          keywords = analyze_keyword_frequency research_data;
          result = result\<lparr>keyword_analysis := keywords\<rparr>;
          lg = lg @ [''Found '' @ show_nat (length keywords) @ '' keywords.''];
          calls = calls @ [Progress ''Assessing data quality...''];
          lg = lg @ [''Step 4: Signal assessment...''];
          sig = assess_signal research_data;
          result = result\<lparr>signal_strength := Some sig\<rparr>;
          lg = lg @ [''Confidence: '' @ confidence sig];
          calls = calls @ [Progress ''Analyzing competition...''];
          lg = lg @ [''Step 5: Saturation analysis...''];
          sat = analyze_structural_saturation research_data;
          result = result\<lparr>saturation_report := Some sat\<rparr>;
          lg = lg @ [''Format: '' @ dominant_format sat @ '' | Saturated: ''
                     @ show_bool (is_saturated sat)];
          calls = calls @ [Progress ''Identifying content opportunities...'',
                           Subdomain_generation];
          lg = lg @ [''Step 6: Dynamic subdomain generation...'']
      in case generate_dynamic_subdomains w lg of (subdomains, lg) \<Rightarrow>
         let result = result\<lparr>meta := (meta result)\<lparr>meta_subdomains := Some subdomains\<rparr>\<rparr>;
             calls = calls @ [Progress ''Finding market gaps...''];
             lg = lg @ [''Step 7: Gap detection...'']
         in case detect_gaps research_data subdomains lg of (gap_results, lg) \<Rightarrow>
         let result = result\<lparr>semantic_gap_analysis := gap_results\<rparr>;
             gap_count = length (filter is_gap gap_results);
             lg = lg @ [''Gaps found: '' @ show_nat gap_count @ ''/''
                        @ show_nat (length gap_results)];
             calls = calls @ [Progress ''Checking competitive intensity...'',
                              Competitive_checks];
             lg = lg @ [''Step 8: Competitive intensity checks...'']
         in case run_competitive_checks w gap_results lg of (competitive, lg) \<Rightarrow>
         let result = result\<lparr>competitive_intensity := competitive\<rparr>;
             calls = calls @ [Progress ''Extracting market insights...'', Insight_extraction];
             lg = lg @ [''Step 9: Intelligence extraction...'']
         in case extract_insights w lg of
              (Inl e, lg) \<Rightarrow> (Some e, result, lg, calls)
            | (Inr insights, lg) \<Rightarrow>
         let result = result\<lparr>content_intelligence := insights\<rparr>;
             calls = calls @ [Progress ''Generating your strategy...'', Strategy_generation];
             lg = lg @ [''Step 10: Strategy generation (2-pass)...'']
         in case generate_strategy w lg of
              (Inl e, lg) \<Rightarrow> (Some e, result, lg, calls)
            | (Inr strategy, lg) \<Rightarrow>
         let strategy_clean = filter (\<lambda>(key, val). \<not> startswith key ''_'') strategy;
             result = result\<lparr>content_strategy := strategy_clean\<rparr>;
             result = result\<lparr>meta := (meta result)
                        \<lparr>meta_elapsed_seconds := Some (elapsed w),
                         meta_research_count := Some (length research_data),
                         meta_pages_with_content := Some (urls_with_content sig),
                         meta_pages_summarized := Some (urls_with_summaries sig),
                         meta_gaps_found := Some gap_count,
                         meta_total_subdomains := Some (length subdomains)\<rparr>\<rparr>;
             result = result\<lparr>research_samples := Some (map sample_of research_data)\<rparr>;
             lg = lg @ [''Pipeline complete in '' @ float_str w (elapsed w) @ ''s.''];
             calls = calls @ [Progress ''Finalizing report...'']
         in (None, result, lg, calls))"

definition pipeline_body ::
  "world \<Rightarrow> string \<Rightarrow> string \<Rightarrow> pipeline_result
     \<Rightarrow> (exn option \<times> pipeline_result \<times> string list \<times> call list)
        \<times> (string \<Rightarrow> cache_file option)"
where
  \<comment> \<open>steps 0 and 1, then the rest; also the files as the run leaves them\<close>
  "pipeline_body w niche platform result =
     (let calls = [Progress ''Checking system...'', Ollama_check];
          lg = [''Checking Ollama availability...'']
      in if \<not> ollama_available w
         then ((Some (ConnectionError
                  (''Ollama is not running or qwen2.5-coder:7b is not installed. ''
                   @ ''Start Ollama with: ollama serve'')), result, lg, calls), files w)
         else
           (let lg = lg @ [''Ollama running with qwen2.5-coder:7b''];
                calls = calls @ [Progress ''Researching your market...'', Research];
                lg = lg @ [''Step 1: Research...'']
            in case research_niche w niche platform lg of
                 (Inl e, lg, fs) \<Rightarrow> ((Some e, result, lg, calls), fs)
               | (Inr research_data, lg, fs) \<Rightarrow>
                   if research_data = []
                   then ((Some (RuntimeError
                            ''No research data collected. Try a different niche.''),
                          result, lg, calls), fs)
                   else
                     (let lg = lg @ [''Research complete: '' @ show_nat (length research_data)
                                     @ '' results.'']
                      in (analysis_stages w niche research_data result lg calls, fs))))"

text \<open>
  A run of the pipeline: what the caller gets (the result returned or the exception
  raised), the calls made, the local \<open>result\<close> dictionary as the function leaves it
  (\<open>None\<close> when it was never created), and the files. On a raise the caller gets the
  exception only; the dictionary is a local variable of the function.
\<close>

record run =
  outcome :: "exn + pipeline_result"
  calls_made :: "call list"
  local_result :: "pipeline_result option"
  files_left :: "string \<Rightarrow> cache_file option"

definition run_pipeline :: "world \<Rightarrow> string \<Rightarrow> string \<Rightarrow> string \<Rightarrow> string \<Rightarrow> run" where
  "run_pipeline w niche platform audience goal =
     (case validate [(''niche'', niche), (''platform'', platform),
                     (''audience'', audience), (''goal'', goal)] of
        Some e \<Rightarrow>
          \<lparr>outcome = Inl e, calls_made = [], local_result = None, files_left = files w\<rparr>
      | None \<Rightarrow>
          (case pipeline_body w niche platform (initial_result niche platform audience goal) of
             ((None, result, lg, calls), fs) \<Rightarrow>
               \<lparr>outcome = Inr (result\<lparr>pipeline_log := lg\<rparr>), calls_made = calls,
                local_result = Some (result\<lparr>pipeline_log := lg\<rparr>), files_left = fs\<rparr>
           | ((Some e, result, lg, calls), fs) \<Rightarrow>
               (let lg = lg @ [''ERROR: '' @ str_of e];
                    result = result\<lparr>meta := (meta result)\<lparr>meta_error := Some (str_of e)\<rparr>\<rparr>;
                    result = result\<lparr>meta := (meta result)
                               \<lparr>meta_elapsed_seconds := Some (elapsed w)\<rparr>\<rparr>
                in \<lparr>outcome = Inl e, calls_made = calls,
                    local_result = Some (result\<lparr>pipeline_log := lg\<rparr>), files_left = fs\<rparr>)))"

section \<open>An environment in which nothing answers\<close>

definition quiet_world :: world where
  \<comment> \<open>no cache file, no provider, no page, no backend; the hash is a stand-in\<close>
  "quiet_world =
     \<lparr>md5_hex = (\<lambda>k. k), files = Map.empty, cache_writable = True,
      clock_start = 0, clock_cache = 0, clock_save = 0, clock_end = 0,
      float_str = (\<lambda>x. ''0.0''), list_repr = (\<lambda>xs. ''[]''), pick = 0,
      ollama_available = False,
      ddg_primary = Inl ''DDG failed: timeout'',
      ddg_enriched = Inl ''DDG failed: timeout'',
      bing_primary = Inl ''Bing failed: timeout'',
      fetch = (\<lambda>u. Fetch_failed),
      summary_reply = (\<lambda>t c. Inl (Unreachable ''Ollama not running. Start with: ollama serve'')),
      subdomain_reply = Inl (Unreachable ''Ollama not running. Start with: ollama serve''),
      intensity = (\<lambda>g. \<lparr>gap = g, intensity_level = ''UNKNOWN'', result_count = - 1,
                           unique_domains = 0\<rparr>),
      insight_reply_1 = Inl (Unreachable ''Ollama not running. Start with: ollama serve''),
      insight_reply_2 = Inl (Unreachable ''Ollama not running. Start with: ollama serve''),
      draft_reply = Inl (Unreachable ''Ollama not running. Start with: ollama serve''),
      refine_reply = Inl (Unreachable ''Ollama not running. Start with: ollama serve'')\<rparr>"

definition stub :: "string \<Rightarrow> string \<Rightarrow> item" where
  \<comment> \<open>a search result as the parsers deliver it: a title and a URL\<close>
  "stub t u = \<lparr>title = t, snippet = '''', url = u, content = '''', score = 0, summary = ''''\<rparr>"


section \<open>Notions used in the statements\<close>

definition list_titles :: "item list \<Rightarrow> nat" where
  \<comment> \<open>how many items match the list pattern in title and snippet\<close>
  "list_titles rd = length (filter (\<lambda>s. matches list_re (title_snippet s)) rd)"

definition guide_titles :: "item list \<Rightarrow> nat" where
  "guide_titles rd = length (filter (\<lambda>s. matches guide_re (title_snippet s)) rd)"

definition compare_titles :: "item list \<Rightarrow> nat" where
  "compare_titles rd = length (filter (\<lambda>s. matches compare_re (title_snippet s)) rd)"

definition bodies :: "item list \<Rightarrow> nat" where
  \<comment> \<open>how many items have a summary or, failing that, a content\<close>
  "bodies rd = length (filter (\<lambda>s. truthy (body_text s)) rd)"

definition list_bodies :: "item list \<Rightarrow> nat" where
  \<comment> \<open>how many of those match the content-level list pattern\<close>
  "list_bodies rd =
     length (filter (\<lambda>s. truthy (body_text s) \<and> matches content_list_re (body_text s)) rd)"

definition key_of :: "nat \<times> string \<times> nat \<Rightarrow> string" where
  \<comment> \<open>the section key of a boundary \<open>(start, key, header end)\<close>\<close>
  "key_of b = fst (snd b)"

definition stop_of :: "string \<Rightarrow> (nat \<times> string \<times> nat) list \<Rightarrow> nat \<Rightarrow> nat" where
  \<comment> \<open>where the section of the \<open>i\<close>-th boundary stops: the start of the next boundary,
      or the end of the text\<close>
  "stop_of raw bs i = (if i + 1 < length bs then fst (bs ! (i + 1)) else length raw)"

definition final_strategy :: "exn + (string \<times> string) list \<Rightarrow> string option" where
  \<comment> \<open>the final text of a strategy result: its entry \<open>_raw\<close>\<close>
  "final_strategy r = (case r of Inl e \<Rightarrow> None | Inr sections \<Rightarrow> map_of sections ''_raw'')"

section \<open>Facts about the string functions\<close>

lemma startswith_iff: "startswith s p \<longleftrightarrow> (\<exists>q. s = p @ q)"
  by (induction s p rule: startswith.induct) auto

lemma contains_iff: "contains s sub \<longleftrightarrow> (\<exists>p q. s = p @ sub @ q)"
proof (induction s)
  case Nil
  then show ?case by auto
next
  case (Cons c cs)
  show ?case
  proof
    assume "contains (c # cs) sub"
    then consider "startswith (c # cs) sub" | "contains cs sub"
      by (auto split: if_splits)
    then show "\<exists>p q. c # cs = p @ sub @ q"
    proof cases
      case 1
      then obtain q where "c # cs = sub @ q" by (auto simp: startswith_iff)
      then have "c # cs = [] @ sub @ q" by simp
      then show ?thesis by blast
    next
      case 2
      with Cons.IH obtain p q where "cs = p @ sub @ q" by blast
      then have "c # cs = (c # p) @ sub @ q" by simp
      then show ?thesis by blast
    qed
  next
    assume "\<exists>p q. c # cs = p @ sub @ q"
    then obtain p q where pq: "c # cs = p @ sub @ q" by blast
    show "contains (c # cs) sub"
    proof (cases p)
      case Nil
      with pq have "startswith (c # cs) sub" by (auto simp: startswith_iff)
      then show ?thesis by simp
    next
      case (Cons a p')
      with pq have "cs = p' @ sub @ q" by simp
      with Cons.IH have "contains cs sub" by blast
      then show ?thesis by simp
    qed
  qed
qed

lemma length_lower [simp]: "length (lower s) = length s"
  by (simp add: lower_def)

section \<open>Facts about numbers and counts\<close>











lemma py_round_eightieth:
  "double_of (1 / 80) = 3602879701896397 / 288230376151711744
   \<and> py_round 3 (double_of (1 / 80)) = double_of (13 / 1000)
   \<and> double_of (13 / 1000) = 7493989779944505 / 576460752303423488
   \<and> double_of (3 / 10) = 5404319552844595 / 18014398509481984"
  by code_simp

lemma gap_entry_eighty_words:
  "gap_entry ''aaa'' (''aaa'' @ concat (replicate 79 '' bbb''))
   = \<lparr>subdomain = ''aaa'' @ concat (replicate 79 '' bbb''),
      similarity = double_of (13 / 1000), is_gap = True, gap_method = ''keyword''\<rparr>"
  by code_simp

lemma count_titles_fold:
  "fold (\<lambda>s (lc, gc, cc).
             let t = title_snippet s
             in (if matches list_re t then lc + 1 else lc,
                 if matches guide_re t then gc + 1 else gc,
                 if matches compare_re t then cc + 1 else cc)) rd (a, b, c)
   = (a + list_titles rd, b + guide_titles rd, c + compare_titles rd)"
  by (induction rd arbitrary: a b c)
     (simp_all add: list_titles_def guide_titles_def compare_titles_def Let_def)

lemma count_titles_eq: "count_titles rd = (list_titles rd, guide_titles rd, compare_titles rd)"
  by (simp add: count_titles_def count_titles_fold)

lemma count_bodies_fold:
  "fold (\<lambda>s (clc, samples_text).
             let txt = body_text s
             in if \<not> truthy txt then (clc, samples_text)
                else (if matches content_list_re txt then clc + 1 else clc, samples_text + 1))
          rd (a, b)
   = (a + list_bodies rd, b + bodies rd)"
  by (induction rd arbitrary: a b) (simp_all add: list_bodies_def bodies_def Let_def)

lemma count_bodies_eq: "count_bodies rd = (list_bodies rd, bodies rd)"
  by (simp add: count_bodies_def count_bodies_fold)

lemma list_bodies_le: "list_bodies rd \<le> bodies rd"
  unfolding list_bodies_def bodies_def
  by (induction rd) auto

lemma pct_over_half:
  assumes "0 < n"
  shows "(50 :: rat) < of_nat k / of_nat n * 100 \<longleftrightarrow> n < 2 * k"
proof -
  have "(50 :: rat) < of_nat k / of_nat n * 100 \<longleftrightarrow> (of_nat n :: rat) < of_nat (2 * k)"
    using assms by (simp add: field_simps)
  also have "\<dots> \<longleftrightarrow> n < 2 * k" by (simp only: of_nat_less_iff)
  finally show ?thesis .
qed

lemma over_tenths:
  "(of_nat n :: rat) * (of_nat a / 10) < of_nat g \<longleftrightarrow> a * n < 10 * g"
proof -
  have "(of_nat n :: rat) * (of_nat a / 10) < of_nat g \<longleftrightarrow> (of_nat (a * n) :: rat) < of_nat (10 * g)"
    by (simp add: field_simps)
  also have "\<dots> \<longleftrightarrow> a * n < 10 * g" by (simp only: of_nat_less_iff)
  finally show ?thesis .
qed

section \<open>Facts about content extraction\<close>

lemma rfind_from_append:
  "rfind_from c (xs @ ys) i f = rfind_from c ys (i + int (length xs)) (rfind_from c xs i f)"
  by (induction xs arbitrary: i f) (simp_all add: algebra_simps)

lemma rfind_from_absent: "c \<notin> set s \<Longrightarrow> rfind_from c s i f = f"
  by (induction s arbitrary: i f) auto

lemma rfind_last:
  assumes "c \<notin> set ys"
  shows "rfind c (xs @ c # ys) = int (length xs)"
  using assms by (simp add: rfind_def rfind_from_append rfind_from_absent)

lemma rfind_from_cases:
  "rfind_from c s i f = f \<or>
   (i \<le> rfind_from c s i f \<and> nat (rfind_from c s i f - i) < length s
    \<and> s ! nat (rfind_from c s i f - i) = c)"
proof (induction s arbitrary: i f)
  case Nil
  then show ?case by simp
next
  case (Cons x xs)
  show ?case
  proof (cases "x = c")
    case True
    from Cons.IH[of "i + 1" i]
    show ?thesis
    proof
      assume "rfind_from c xs (i + 1) i = i"
      then show ?thesis using True by simp
    next
      assume a: "i + 1 \<le> rfind_from c xs (i + 1) i \<and>
        nat (rfind_from c xs (i + 1) i - (i + 1)) < length xs \<and>
        xs ! nat (rfind_from c xs (i + 1) i - (i + 1)) = c"
      let ?r = "rfind_from c xs (i + 1) i"
      have "nat (?r - i) = Suc (nat (?r - (i + 1)))" using a by linarith
      then show ?thesis using a True by simp
    qed
  next
    case False
    from Cons.IH[of "i + 1" f]
    show ?thesis
    proof
      assume "rfind_from c xs (i + 1) f = f"
      then show ?thesis using False by simp
    next
      assume a: "i + 1 \<le> rfind_from c xs (i + 1) f \<and>
        nat (rfind_from c xs (i + 1) f - (i + 1)) < length xs \<and>
        xs ! nat (rfind_from c xs (i + 1) f - (i + 1)) = c"
      let ?r = "rfind_from c xs (i + 1) f"
      have "nat (?r - i) = Suc (nat (?r - (i + 1)))" using a by linarith
      then show ?thesis using a False by simp
    qed
  qed
qed

lemma rfind_cases:
  "rfind c s = - 1 \<or> (0 \<le> rfind c s \<and> nat (rfind c s) < length s \<and> s ! nat (rfind c s) = c)"
  using rfind_from_cases[of c s 0 "- 1"] by (simp add: rfind_def)

lemma extract_short:
  "length cleaned < 300 \<Longrightarrow> extract_page_content (Cleaned cleaned) = ''''"
  by (simp add: extract_page_content_def MIN_CONTENT_LENGTH_def)

lemma extract_bounded: "length (extract_page_content page) \<le> 1200"
  by (cases page)
     (simp_all add: extract_page_content_def MIN_CONTENT_LENGTH_def MAX_CONTENT_LENGTH_def Let_def)

lemma extract_middle:
  "300 \<le> length cleaned \<Longrightarrow> length cleaned \<le> 1200 \<Longrightarrow> extract_page_content (Cleaned cleaned) = cleaned"
  by (simp add: extract_page_content_def MIN_CONTENT_LENGTH_def MAX_CONTENT_LENGTH_def)

lemma extract_cut_at_sentence:
  assumes len: "1200 < length cleaned"
    and p: "600 < p" "p < 1200" "cleaned ! p = CHR ''.''"
    and last: "\<forall>q. p < q \<and> q < 1200 \<longrightarrow> cleaned ! q \<noteq> CHR ''.''"
  shows "extract_page_content (Cleaned cleaned) = take (p + 1) cleaned"
proof -
  let ?t = "take 1200 cleaned"
  let ?ys = "drop (p + 1) ?t"
  have lt: "length ?t = 1200" using len by simp
  have split: "?t = take p ?t @ ?t ! p # ?ys"
    using p(2) lt by (metis Suc_eq_plus1 id_take_nth_drop)
  have tp: "?t ! p = CHR ''.''" using p by simp
  have absent: "CHR ''.'' \<notin> set ?ys"
  proof
    assume "CHR ''.'' \<in> set ?ys"
    then obtain k where k: "k < length ?ys" "?ys ! k = CHR ''.''"
      by (auto simp: in_set_conv_nth)
    have kl: "p + 1 + k < 1200" using k(1) lt by simp
    have "?ys ! k = cleaned ! (p + 1 + k)" using kl len by simp
    with k(2) have "cleaned ! (p + 1 + k) = CHR ''.''" by simp
    moreover have "cleaned ! (p + 1 + k) \<noteq> CHR ''.''" using last kl by simp
    ultimately show False by simp
  qed
  have "rfind CHR ''.'' (take p ?t @ CHR ''.'' # ?ys) = int (length (take p ?t))"
    using absent by (rule rfind_last)
  then have lp: "rfind CHR ''.'' ?t = int p"
    using split tp p(2) lt by simp
  have "take (nat (int p + 1)) ?t = take (p + 1) cleaned"
    using p(2) by (simp add: nat_add_distrib min_def)
  then show ?thesis
    using len p(1) lp
    by (simp add: extract_page_content_def MIN_CONTENT_LENGTH_def MAX_CONTENT_LENGTH_def Let_def)
qed

lemma extract_cut_at_limit:
  assumes len: "1200 < length cleaned"
    and none: "\<forall>q. 600 < q \<and> q < 1200 \<longrightarrow> cleaned ! q \<noteq> CHR ''.''"
  shows "extract_page_content (Cleaned cleaned) = take 1200 cleaned"
proof -
  let ?t = "take 1200 cleaned"
  let ?lp = "rfind CHR ''.'' ?t"
  have "\<not> 600 < ?lp"
  proof
    assume a: "600 < ?lp"
    with rfind_cases[of "CHR ''.''" ?t]
    have r: "nat ?lp < length ?t" "?t ! nat ?lp = CHR ''.''" by auto
    have "nat ?lp < 1200" using r(1) by simp
    moreover have "600 < nat ?lp" using a by simp
    moreover have "cleaned ! nat ?lp = CHR ''.''" using r by simp
    ultimately show False using none by blast
  qed
  then show ?thesis
    using len
    by (simp add: extract_page_content_def MIN_CONTENT_LENGTH_def MAX_CONTENT_LENGTH_def Let_def)
qed

section \<open>Facts about retrieval\<close>

lemma fold_dedup_step_snoc:
  "fold dedup_step (xs @ [x]) s = dedup_step x (fold dedup_step xs s)"
  by simp




lemma length_enrich_results: "length (fst (enrich_results w ds lg)) = length ds"
  by (simp add: enrich_results_def Let_def)

lemma research_niche_cap:
  assumes "load_cache (md5_hex w) (files w) (clock_cache w) niche platform = Inr []"
  shows "\<exists>rs. fst (research_niche w niche platform lg) = Inr rs \<and> length rs \<le> 12"
proof -
  obtain ar l3 where g: "gather_results w niche platform lg = (ar, l3)"
    by (cases "gather_results w niche platform lg")
  obtain ds l5 where e: "enrich_results w (take 12 (dedup ar)) l3 = (ds, l5)"
    by (cases "enrich_results w (take 12 (dedup ar)) l3")
  have "length ds = length (take 12 (dedup ar))"
    using length_enrich_results[of w "take 12 (dedup ar)" l3] e by simp
  then have "length ds \<le> 12" by simp
  then show ?thesis
    using assms g e by (simp add: research_niche_def Let_def)
qed







section \<open>Facts about the cache\<close>

lemma serializable_id [simp]: "serializable d = d"
  by (simp add: serializable_def)

lemma map_serializable [simp]: "map serializable xs = xs"
  by (induction xs) simp_all

lemma load_after_save:
  assumes "now - t \<le> 24 * 3600"
  shows "load_cache md5 (save_cache md5 True fs t niche platform items) now niche platform
           = Inr items"
proof -
  have "\<not> 24 < (now - t) / 3600" using assms by (simp add: field_simps)
  then show ?thesis
    by (simp add: load_cache_def save_cache_def CACHE_MAX_AGE_HOURS_def Let_def)
qed

lemma load_expired:
  assumes "fs (cache_path md5 niche platform) = Some f" and "24 * 3600 < now - mtime f"
  shows "load_cache md5 fs now niche platform = Inr []"
proof -
  have "24 < (now - mtime f) / 3600" using assms(2) by (simp add: field_simps)
  then show ?thesis
    using assms(1) by (simp add: load_cache_def CACHE_MAX_AGE_HOURS_def Let_def)
qed

lemma load_missing:
  "fs (cache_path md5 niche platform) = None \<Longrightarrow> load_cache md5 fs now niche platform = Inr []"
  by (simp add: load_cache_def)

lemma load_unreadable:
  "fs (cache_path md5 niche platform) = Some f \<Longrightarrow> \<not> readable f
     \<Longrightarrow> load_cache md5 fs now niche platform = Inr []"
  by (simp add: load_cache_def Let_def)

lemma load_malformed:
  "fs (cache_path md5 niche platform) = Some f \<Longrightarrow> body f = Malformed \<or> body f = Json_other
     \<Longrightarrow> load_cache md5 fs now niche platform = Inr []"
  by (auto simp: load_cache_def Let_def)

lemma load_undecodable:
  assumes "fs (cache_path md5 niche platform) = Some f" and "readable f"
    and "body f = Undecodable m" and "now - mtime f \<le> 24 * 3600"
  shows "load_cache md5 fs now niche platform = Inl (UnicodeDecodeError m)"
proof -
  have "\<not> 24 < (now - mtime f) / 3600" using assms(4) by (simp add: field_simps)
  then show ?thesis
    using assms(1-3) by (simp add: load_cache_def CACHE_MAX_AGE_HOURS_def Let_def)
qed

section \<open>Facts about strategy synthesis\<close>

lemma key_of_triple [simp]: "key_of (s, k, e) = k"
  by (simp add: key_of_def)

lemma over_half: "(of_nat n :: rat) * (5 / 10) < of_nat m \<longleftrightarrow> n < 2 * m"
proof -
  have "(of_nat n :: rat) * (5 / 10) < of_nat m \<longleftrightarrow> (of_nat n :: rat) < of_nat (2 * m)"
    by (simp add: field_simps)
  also have "\<dots> \<longleftrightarrow> n < 2 * m" by (simp only: of_nat_less_iff)
  finally show ?thesis .
qed

lemma refine_pass_reply:
  assumes "refine_reply w = Inr refined" and "refined \<noteq> []"
  shows "refine_pass w raw lg =
           (if length raw < 2 * length (strip refined)
            then (refined, lg @ [''Pass 2: '' @ show_nat (length refined) @ '' chars (refined).''])
            else (raw, lg @ [''Pass 2 too short. Using Pass 1.'']))"
  using assms by (simp add: refine_pass_def truthy_def over_half)

lemma locate_keys: "key_of ` set (locate raw ps) \<subseteq> fst ` set ps"
proof (induction ps)
  case Nil
  then show ?case by simp
next
  case (Cons p ps)
  obtain key pat where p: "p = (key, pat)" by (cases p)
  show ?case
    using Cons.IH unfolding p
    by (cases "search pat raw") auto
qed

lemma locate_distinct:
  "distinct (map fst ps) \<Longrightarrow> distinct (map key_of (locate raw ps))"
proof (induction ps)
  case Nil
  then show ?case by simp
next
  case (Cons p ps)
  obtain key pat where p: "p = (key, pat)" by (cases p)
  have "key \<notin> fst ` set ps" using Cons.prems p by simp
  then have k: "key \<notin> key_of ` set (locate raw ps)"
    using locate_keys[of raw ps] by blast
  have d: "distinct (map key_of (locate raw ps))"
    using Cons by simp
  show ?case
    unfolding p using k d
    by (cases "search pat raw") auto
qed

lemma locate_set:
  "set (locate raw ps) =
     {(st, key, en). \<exists>pat. (key, pat) \<in> set ps \<and> search pat raw = Some (st, en)}"
proof (induction ps)
  case Nil
  then show ?case by simp
next
  case (Cons p ps)
  obtain key pat where p: "p = (key, pat)" by (cases p)
  show ?case
    unfolding p using Cons.IH
    by (cases "search pat raw") auto
qed

lemma distinct_patterns: "distinct (map fst patterns)"
  by (simp add: patterns_def)

lemma distinct_boundary_keys: "distinct (map key_of (sort_key fst (boundaries raw)))"
proof -
  have d: "distinct (map key_of (boundaries raw))"
    unfolding boundaries_def using distinct_patterns by (rule locate_distinct)
  then have "distinct (boundaries raw)" and "inj_on key_of (set (boundaries raw))"
    by (simp_all add: distinct_map)
  then show ?thesis by (simp add: distinct_map)
qed

lemma fill_sections_other:
  "k \<notin> key_of ` set bs \<Longrightarrow> map_of (fill_sections raw bs acc) k = map_of acc k"
proof (induction bs arbitrary: acc)
  case Nil
  then show ?case by simp
next
  case (Cons b bs)
  obtain start key hend where b: "b = (start, key, hend)" by (cases b)
  have "k \<noteq> key" and "k \<notin> key_of ` set bs"
    using Cons.prems b by auto
  then show ?case
    unfolding b using Cons.IH by (simp add: Let_def update_conv')
qed

lemma fill_sections_lookup:
  assumes "distinct (map key_of bs)" and "i < length bs"
  shows "map_of (fill_sections raw bs acc) (key_of (bs ! i))
           = Some (section_text raw (snd (snd (bs ! i))) (stop_of raw bs i))"
  using assms
proof (induction bs arbitrary: acc i)
  case Nil
  then show ?case by simp
next
  case (Cons b rest)
  obtain start key hend where b: "b = (start, key, hend)" by (cases b)
  let ?stop = "case rest of [] \<Rightarrow> length raw | (next_start, _, _) # _ \<Rightarrow> next_start"
  have key: "key \<notin> key_of ` set rest" and d: "distinct (map key_of rest)"
    using Cons.prems(1) b by auto
  show ?case
  proof (cases i)
    case 0
    have s: "stop_of raw (b # rest) 0 = ?stop"
      by (cases rest) (auto simp: stop_of_def)
    show ?thesis
      using 0 fill_sections_other[OF key] s unfolding b
      by (simp add: Let_def update_conv')
  next
    case (Suc j)
    then have j: "j < length rest" using Cons.prems(2) by simp
    have s: "stop_of raw (b # rest) (Suc j) = stop_of raw rest j"
      by (simp add: stop_of_def)
    from Cons.IH[OF d j] show ?thesis
      using Suc s unfolding b by (simp add: Let_def)
  qed
qed

lemma update_keys: "fst ` set (AList.update k v al) = insert k (fst ` set al)"
  by (induction al) auto

lemma fill_sections_keys:
  "fst ` set (fill_sections raw bs acc) = fst ` set acc \<union> key_of ` set bs"
proof (induction bs arbitrary: acc)
  case Nil
  then show ?case by simp
next
  case (Cons b bs)
  obtain start key hend where b: "b = (start, key, hend)" by (cases b)
  show ?case
    unfolding b using Cons.IH by (simp add: Let_def update_keys)
qed

lemma generate_strategy_two_pass:
  assumes "draft_reply w = Inr raw" and "raw \<noteq> []" and "100 \<le> length (strip raw)"
    and "refine_reply w = Inr refined" and "refined \<noteq> []"
  shows "generate_strategy w lg =
           (Inr (AList.update ''_pass1'' raw
                  (AList.update ''_raw''
                     (if length raw < 2 * length (strip refined) then refined else raw)
                     (split_sections
                        (if length raw < 2 * length (strip refined) then refined else raw)))),
            lg @ [''Strategy Pass 1: Generating...'',
                   ''Pass 1: '' @ show_nat (length raw) @ '' chars.'',
                   ''Strategy Pass 2: Critique and refine...'',
                   if length raw < 2 * length (strip refined)
                   then ''Pass 2: '' @ show_nat (length refined) @ '' chars (refined).''
                   else ''Pass 2 too short. Using Pass 1.''])"
  using assms(1-3) refine_pass_reply [OF assms(4,5)]
  by (simp add: generate_strategy_def truthy_def Let_def)

lemma final_strategy_update:
  "final_strategy (Inr (AList.update ''_pass1'' a (AList.update ''_raw'' b al))) = Some b"
  by (simp add: final_strategy_def update_conv')

lemma boundaries_example:
  "boundaries ''#1 strategic positioning: Bold CONTENT PILLARS- A OPTIMIZED HOOKS H''
   = [(0, ''positioning'', 24), (31, ''pillars'', 46), (50, ''hooks'', 65)]"
  by code_simp

lemma split_sections_example:
  "split_sections ''#1 strategic positioning: Bold CONTENT PILLARS- A OPTIMIZED HOOKS H''
   = [(''positioning'', ''Bold''), (''pillars'', ''A''), (''hooks'', ''H'')]"
  unfolding split_sections_def boundaries_example by code_simp

section \<open>Facts about the pipeline\<close>

lemma all_dropWhile: "(\<forall>c \<in> set (dropWhile P s). P c) \<longleftrightarrow> (\<forall>c \<in> set s. P c)"
proof
  assume a: "\<forall>c \<in> set (dropWhile P s). P c"
  show "\<forall>c \<in> set s. P c"
  proof
    fix c assume "c \<in> set s"
    then have "c \<in> set (takeWhile P s @ dropWhile P s)"
      by (simp only: takeWhile_dropWhile_id)
    then have "c \<in> set (takeWhile P s) \<or> c \<in> set (dropWhile P s)"
      by (simp only: set_append Un_iff)
    then show "P c"
    proof
      assume "c \<in> set (takeWhile P s)"
      then show ?thesis by (rule set_takeWhileD [THEN conjunct2])
    next
      assume "c \<in> set (dropWhile P s)"
      with a show ?thesis by (rule bspec)
    qed
  qed
next
  assume b: "\<forall>c \<in> set s. P c"
  show "\<forall>c \<in> set (dropWhile P s). P c"
  proof
    fix c assume "c \<in> set (dropWhile P s)"
    then have "c \<in> set s" by (rule set_dropWhileD)
    with b show "P c" by (rule bspec)
  qed
qed

lemma strip_empty_iff: "strip s = [] \<longleftrightarrow> (\<forall>c \<in> set s. isspace c)"
proof -
  have "strip s = [] \<longleftrightarrow> dropWhile isspace (rev (dropWhile isspace s)) = []"
    by (simp only: strip_def rstrip_def lstrip_def rev_is_Nil_conv)
  also have "\<dots> \<longleftrightarrow> (\<forall>c \<in> set (rev (dropWhile isspace s)). isspace c)"
    by (simp only: dropWhile_eq_Nil_conv)
  also have "\<dots> \<longleftrightarrow> (\<forall>c \<in> set (dropWhile isspace s). isspace c)"
    by (simp only: set_rev)
  also have "\<dots> \<longleftrightarrow> (\<forall>c \<in> set s. isspace c)"
    by (rule all_dropWhile)
  finally show ?thesis .
qed

lemma blank_iff: "blank s \<longleftrightarrow> (\<forall>c \<in> set s. isspace c)"
proof (cases "s = []")
  case True
  then show ?thesis by (simp add: blank_def truthy_def)
next
  case False
  then show ?thesis by (simp only: blank_def truthy_def strip_empty_iff simp_thms)
qed

lemma validate_blank:
  assumes "\<exists>p \<in> set inputs. blank (snd p)"
  shows "\<exists>name \<in> fst ` set inputs. validate inputs = Some (ValueError (name @ '' cannot be empty.''))"
  using assms
proof (induction inputs)
  case Nil
  then show ?case by simp
next
  case (Cons p inputs)
  obtain name val where p: "p = (name, val)" by (cases p)
  show ?case
  proof (cases "blank val")
    case True
    then show ?thesis unfolding p by simp
  next
    case False
    with Cons.prems p have "\<exists>q \<in> set inputs. blank (snd q)" by auto
    from Cons.IH[OF this] False show ?thesis unfolding p by auto
  qed
qed

lemma run_pipeline_rejects:
  assumes "validate [(''niche'', niche), (''platform'', platform),
                     (''audience'', audience), (''goal'', goal)] = Some e"
  shows "run_pipeline w niche platform audience goal =
           \<lparr>outcome = Inl e, calls_made = [], local_result = None, files_left = files w\<rparr>"
  using assms by (simp add: run_pipeline_def)

lemma run_failure_local:
  assumes "outcome (run_pipeline w niche platform audience goal) = Inl e"
  shows "local_result (run_pipeline w niche platform audience goal) = None
         \<or> (\<exists>r. local_result (run_pipeline w niche platform audience goal) = Some r
                \<and> meta_error (meta r) = Some (str_of e)
                \<and> meta_elapsed_seconds (meta r) = Some (elapsed w)
                \<and> pipeline_log r \<noteq> []
                \<and> last (pipeline_log r) = ''ERROR: '' @ str_of e)"
proof (cases "validate [(''niche'', niche), (''platform'', platform),
                        (''audience'', audience), (''goal'', goal)]")
  case (Some e')
  then show ?thesis by (simp add: run_pipeline_def)
next
  case None
  obtain x result lg calls fs
    where b: "pipeline_body w niche platform (initial_result niche platform audience goal)
                = ((x, result, lg, calls), fs)"
    by (metis prod.collapse)
  show ?thesis
  proof (cases x)
    case None
    with b \<open>validate _ = None\<close> assms show ?thesis by (simp add: run_pipeline_def)
  next
    case (Some e')
    with b \<open>validate _ = None\<close> assms show ?thesis
      by (simp add: run_pipeline_def Let_def)
  qed
qed

lemma analysis_meta_error:
  assumes "analysis_stages w niche rd result lg calls = (x, result', lg', calls')"
  shows "meta_error (meta result') = meta_error (meta result)"
  using assms
  by (auto simp: analysis_stages_def Let_def split: prod.splits sum.splits)

lemma body_meta_error:
  assumes "pipeline_body w niche platform result = ((x, result', lg, calls), fs)"
  shows "meta_error (meta result') = meta_error (meta result)"
proof (cases "ollama_available w")
  case False
  with assms show ?thesis by (simp add: pipeline_body_def)
next
  case True
  obtain r lg1 fs1 where rn:
    "research_niche w niche platform
       [''Checking Ollama availability...'', ''Ollama running with qwen2.5-coder:7b'',
        ''Step 1: Research...''] = (r, lg1, fs1)"
    by (metis prod.collapse)
  show ?thesis
  proof (cases r)
    case (Inl e)
    with assms True rn show ?thesis by (simp add: pipeline_body_def)
  next
    case (Inr research_data)
    show ?thesis
    proof (cases "research_data = []")
      case True
      with assms \<open>ollama_available w\<close> rn Inr show ?thesis by (simp add: pipeline_body_def)
    next
      case False
      with assms \<open>ollama_available w\<close> rn Inr
      have "analysis_stages w niche research_data result
              (lg1 @ [''Research complete: '' @ show_nat (length research_data) @ '' results.''])
              [Progress ''Checking system...'', Ollama_check,
               Progress ''Researching your market...'', Research]
            = (x, result', lg, calls)"
        by (simp add: pipeline_body_def)
      then show ?thesis by (rule analysis_meta_error)
    qed
  qed
qed

lemma run_success_no_error:
  assumes "outcome (run_pipeline w niche platform audience goal) = Inr r"
  shows "meta_error (meta r) = None
         \<and> local_result (run_pipeline w niche platform audience goal) = Some r"
proof (cases "validate [(''niche'', niche), (''platform'', platform),
                        (''audience'', audience), (''goal'', goal)]")
  case (Some e')
  with assms show ?thesis by (simp add: run_pipeline_def)
next
  case None
  obtain x result lg calls fs
    where b: "pipeline_body w niche platform (initial_result niche platform audience goal)
                = ((x, result, lg, calls), fs)"
    by (metis prod.collapse)
  have m: "meta_error (meta result) = None"
    using body_meta_error [OF b] by (simp add: initial_result_def)
  show ?thesis
  proof (cases x)
    case None
    with b \<open>validate _ = None\<close> assms m show ?thesis by (auto simp: run_pipeline_def)
  next
    case (Some e')
    with b \<open>validate _ = None\<close> assms show ?thesis
      by (simp add: run_pipeline_def Let_def)
  qed
qed

lemma blank_platform_example:
  "outcome (run_pipeline quiet_world ''fitness'' ''  '' ''teens'' ''sales'')
     = Inl (ValueError ''platform cannot be empty.'')"
  by code_simp

section \<open>Heuristic scoring: the score as a sum\<close>

lemma fold_count_matches:
  "fold (\<lambda>w sc. if P w then sc + 1 else sc) ws (k::int) = k + int (length (filter P ws))"
  by (induction ws arbitrary: k) auto

text \<open>
  Claim C7. For every title and snippet, and whatever order the power words are met in,
  the heuristic score is 2 if the lower-cased title and snippet joined by a space hold a
  digit, plus 1 if they hold a question mark, plus 1 if the title has fewer than
  12 words, plus 1 for each power word that occurs in the joined text. The score is a
  non-negative integer, and it depends on the title and the snippet only.
\<close>

theorem compute_heuristic_score_sum:
  assumes "distinct ws" and "set ws = POWER_WORDS"
  shows "compute_heuristic_score ws ttl snip =
           (if \<exists>c \<in> set (lower (ttl @ '' '' @ snip)). isdigit c then 2 else 0)
         + (if CHR ''?'' \<in> set (lower (ttl @ '' '' @ snip)) then 1 else 0)
         + (if length (split ttl) < 12 then 1 else 0)
         + int (card {w \<in> POWER_WORDS. \<exists>p q. lower (ttl @ '' '' @ snip) = p @ w @ q})
         \<and> 0 \<le> compute_heuristic_score ws ttl snip"
proof -
  let ?c = "lower (ttl @ '' '' @ snip)"
  have "distinct (filter (contains ?c) ws)"
    using assms(1) by simp
  then have "length (filter (contains ?c) ws) = card (set (filter (contains ?c) ws))"
    by (rule distinct_card [symmetric])
  also have "set (filter (contains ?c) ws) = {w \<in> POWER_WORDS. \<exists>p q. ?c = p @ w @ q}"
    using assms(2) by (auto simp: contains_iff)
  finally have n: "length (filter (contains ?c) ws)
                     = card {w \<in> POWER_WORDS. \<exists>p q. ?c = p @ w @ q}" .
  have eq: "compute_heuristic_score ws ttl snip =
           (if \<exists>c \<in> set ?c. isdigit c then 2 else 0)
         + (if CHR ''?'' \<in> set ?c then 1 else 0)
         + (if length (split ttl) < 12 then 1 else 0)
         + int (card {w \<in> POWER_WORDS. \<exists>p q. ?c = p @ w @ q})"
    unfolding compute_heuristic_score_def Let_def fold_count_matches n list_ex_iff
    by simp
  then show ?thesis by simp
qed

text \<open>
  Witness for C7: the order of the source text is an iteration order of the set.
\<close>

theorem compute_heuristic_score_sum_witness:
  "distinct power_word_order \<and> set power_word_order = POWER_WORDS
   \<and> 0 \<le> compute_heuristic_score power_word_order ''10 proven hacks?'' ''the ultimate guide''"
proof -
  have d: "distinct power_word_order"
    by (simp add: power_word_order_def)
  have s: "set power_word_order = POWER_WORDS"
    by (simp add: power_word_order_def POWER_WORDS_def)
  from compute_heuristic_score_sum [OF d s, of "''10 proven hacks?''" "''the ultimate guide''"]
  have "0 \<le> compute_heuristic_score power_word_order ''10 proven hacks?'' ''the ultimate guide''"
    by (rule conjunct2)
  with d s show ?thesis by (intro conjI)
qed

section \<open>Gap detection: coverage\<close>



section \<open>Structural saturation: the dominant format\<close>

text \<open>
  Claim C8, as the code has it. For every non-empty corpus the dominant format is
  \<open>Listicle saturation\<close> when more than half of the titles and snippets, or more than
  half of the summarized bodies, match the list patterns; otherwise
  \<open>Guide/tutorial heavy\<close> when more than 40% of the titles and snippets match the guide
  patterns; otherwise \<open>Comparison heavy\<close> when more than 30% match the comparison
  patterns; otherwise \<open>Mixed formats\<close>. The flag \<open>is_saturated\<close> is set exactly in
  the first case.
\<close>

theorem saturation_classification:
  assumes "rd \<noteq> []"
  shows "dominant_format (analyze_structural_saturation rd) =
           (if length rd < 2 * list_titles rd \<or> bodies rd < 2 * list_bodies rd
              then ''Listicle saturation''
            else if 4 * length rd < 10 * guide_titles rd then ''Guide/tutorial heavy''
            else if 3 * length rd < 10 * compare_titles rd then ''Comparison heavy''
            else ''Mixed formats'')
         \<and> (is_saturated (analyze_structural_saturation rd) \<longleftrightarrow>
              length rd < 2 * list_titles rd \<or> bodies rd < 2 * list_bodies rd)"
proof -
  let ?t = "of_nat (list_titles rd) / of_nat (length rd) * 100 :: rat"
  let ?c = "if bodies rd \<noteq> 0 then of_nat (list_bodies rd) / of_nat (bodies rd) * 100 else 0 :: rat"
  have n: "0 < length rd" using assms by simp
  have t: "50 < ?t \<longleftrightarrow> length rd < 2 * list_titles rd"
    using n by (rule pct_over_half)
  have c: "50 < ?c \<longleftrightarrow> bodies rd < 2 * list_bodies rd"
  proof (cases "bodies rd = 0")
    case True
    then have "list_bodies rd = 0" using list_bodies_le[of rd] by simp
    with True show ?thesis by simp
  next
    case False
    then show ?thesis using pct_over_half[of "bodies rd" "list_bodies rd"] by simp
  qed
  have m: "50 < max ?t ?c \<longleftrightarrow> length rd < 2 * list_titles rd \<or> bodies rd < 2 * list_bodies rd"
    using t c by (simp only: less_max_iff_disj)
  have g: "(of_nat (length rd) :: rat) * (4 / 10) < of_nat (guide_titles rd)
             \<longleftrightarrow> 4 * length rd < 10 * guide_titles rd"
    using over_tenths[of "length rd" 4 "guide_titles rd"] by simp
  have k: "(of_nat (length rd) :: rat) * (3 / 10) < of_nat (compare_titles rd)
             \<longleftrightarrow> 3 * length rd < 10 * compare_titles rd"
    using over_tenths[of "length rd" 3 "compare_titles rd"] by simp
  have d: "dominant_format (analyze_structural_saturation rd) =
           (if 50 < max ?t ?c then ''Listicle saturation''
            else if (of_nat (length rd) :: rat) * (4 / 10) < of_nat (guide_titles rd)
              then ''Guide/tutorial heavy''
            else if (of_nat (length rd) :: rat) * (3 / 10) < of_nat (compare_titles rd)
              then ''Comparison heavy''
            else ''Mixed formats'')"
    using assms
    by (simp add: analyze_structural_saturation_def count_titles_eq count_bodies_eq Let_def
             del: less_max_iff_disj)
  have i: "is_saturated (analyze_structural_saturation rd) \<longleftrightarrow> 50 < max ?t ?c"
    using assms
    by (simp add: analyze_structural_saturation_def count_titles_eq count_bodies_eq Let_def
             del: less_max_iff_disj)
  show ?thesis unfolding d i m g k by simp
qed

theorem saturation_classification_witness:
  "[\<lparr>title = ''top tips'', snippet = '''', url = '''', content = '''', score = 0,
       summary = ''''\<rparr>] \<noteq> []
   \<and> (dominant_format (analyze_structural_saturation
         [\<lparr>title = ''top tips'', snippet = '''', url = '''', content = '''', score = 0,
            summary = ''''\<rparr>]) = ''Listicle saturation''
      \<and> is_saturated (analyze_structural_saturation
         [\<lparr>title = ''top tips'', snippet = '''', url = '''', content = '''', score = 0,
            summary = ''''\<rparr>]))"
proof -
  let ?rd = "[\<lparr>title = ''top tips'', snippet = '''', url = '''', content = '''', score = 0,
                summary = ''''\<rparr>]"
  have h: "?rd \<noteq> []" by simp
  have l: "list_titles ?rd = 1" by code_simp
  from saturation_classification [OF h] l h show ?thesis by simp
qed

text \<open>
  Claim C8 as stated puts the first threshold at "at least 50%". With two items of which
  one matches the list pattern, exactly half match; the code does not call the corpus
  saturated and finds mixed formats.
\<close>

theorem saturation_half_counterexample:
  "dominant_format (analyze_structural_saturation
      [\<lparr>title = ''top tips'', snippet = '''', url = '''', content = '''', score = 0,
         summary = ''''\<rparr>,
       \<lparr>title = ''hello'', snippet = '''', url = '''', content = '''', score = 0,
         summary = ''''\<rparr>]) = ''Mixed formats''
   \<and> \<not> is_saturated (analyze_structural_saturation
      [\<lparr>title = ''top tips'', snippet = '''', url = '''', content = '''', score = 0,
         summary = ''''\<rparr>,
       \<lparr>title = ''hello'', snippet = '''', url = '''', content = '''', score = 0,
         summary = ''''\<rparr>])
   \<and> 2 * list_titles
      [\<lparr>title = ''top tips'', snippet = '''', url = '''', content = '''', score = 0,
         summary = ''''\<rparr>,
       \<lparr>title = ''hello'', snippet = '''', url = '''', content = '''', score = 0,
         summary = ''''\<rparr>]
     = length
      [\<lparr>title = ''top tips'', snippet = '''', url = '''', content = '''', score = 0,
         summary = ''''\<rparr>,
       \<lparr>title = ''hello'', snippet = '''', url = '''', content = '''', score = 0,
         summary = ''''\<rparr>]"
  by code_simp

section \<open>Content extraction: the length gate\<close>

text \<open>
  Claim C5. For every fetched page, content extraction returns the empty string when the
  cleaned text is shorter than 300 characters, and it never returns more than
  1200 characters. A cleaned text longer than 1200 characters is cut at 1200; the cut
  moves back to just after the last full stop of those 1200 characters when that full
  stop lies past index 600, the 50% mark, and stays at 1200 when no full stop lies there.
\<close>

theorem extract_page_content_length_gate:
  "(length short < 300 \<longrightarrow> extract_page_content (Cleaned short) = '''')
   \<and> length (extract_page_content page) \<le> 1200
   \<and> (1200 < length long \<and> 600 < p \<and> p < 1200 \<and> long ! p = CHR ''.''
        \<and> (\<forall>q. p < q \<and> q < 1200 \<longrightarrow> long ! q \<noteq> CHR ''.'')
      \<longrightarrow> extract_page_content (Cleaned long) = take (p + 1) long)
   \<and> (1200 < length flat \<and> (\<forall>q. 600 < q \<and> q < 1200 \<longrightarrow> flat ! q \<noteq> CHR ''.'')
      \<longrightarrow> extract_page_content (Cleaned flat) = take 1200 flat)"
  using extract_short [of short] extract_bounded [of page]
    extract_cut_at_sentence [of long p] extract_cut_at_limit [of flat]
  by blast

theorem extract_page_content_length_gate_witness:
  "length ''too short'' < 300
   \<and> extract_page_content (Cleaned ''too short'') = ''''
   \<and> 1200 < length (replicate 700 CHR ''a'' @ ''.'' @ replicate 600 CHR ''b'')
   \<and> extract_page_content (Cleaned (replicate 700 CHR ''a'' @ ''.'' @ replicate 600 CHR ''b''))
       = replicate 700 CHR ''a'' @ ''.''
   \<and> 1200 < length (replicate 1300 CHR ''a'')
   \<and> extract_page_content (Cleaned (replicate 1300 CHR ''a'')) = replicate 1200 CHR ''a''"
proof -
  let ?l = "replicate 700 CHR ''a'' @ ''.'' @ replicate 600 CHR ''b''"
  let ?f = "replicate 1300 CHR ''a''"
  have h1: "length ''too short'' < 300" by simp
  have h2: "1200 < length ?l \<and> 600 < (700::nat) \<and> (700::nat) < 1200 \<and> ?l ! 700 = CHR ''.''
        \<and> (\<forall>q. 700 < q \<and> q < 1200 \<longrightarrow> ?l ! q \<noteq> CHR ''.'')"
    by (auto simp: nth_append)
  have h3: "1200 < length ?f \<and> (\<forall>q. 600 < q \<and> q < 1200 \<longrightarrow> ?f ! q \<noteq> CHR ''.'')"
    by simp
  have t: "take (700 + 1) ?l = replicate 700 CHR ''a'' @ ''.''" by simp
  have u: "take 1200 ?f = replicate 1200 CHR ''a''" by simp
  from extract_page_content_length_gate [of "''too short''" Not_html ?l 700 ?f] h1 h2 h3
  have "extract_page_content (Cleaned ''too short'') = ''''
        \<and> extract_page_content (Cleaned ?l) = take (700 + 1) ?l
        \<and> extract_page_content (Cleaned ?f) = take 1200 ?f"
    by blast
  with h1 h2 h3 show ?thesis unfolding t u by blast
qed

section \<open>De-duplication: first occurrences, in order, at most twelve\<close>




lemma dedup_example:
  "dedup [stub ''A'' ''https://Example.com/a/'', stub ''B'' ''https://example.com/A'',
          stub ''C'' ''https://example.com/b'', stub ''D'' ''HTTPS://EXAMPLE.COM/A//'']
   = [stub ''A'' ''https://Example.com/a/'', stub ''C'' ''https://example.com/b'']"
  by code_simp

section \<open>Cache store: a file that does not decode\<close>

text \<open>
  Claim C4 says that loading after saving returns the saved items within 24 hours and
  nothing after, and that a missing, unreadable or corrupt entry yields the empty list
  rather than an error. The first two parts hold (\<open>load_after_save\<close>, \<open>load_expired\<close>),
  and so does the third for a missing file, a file that cannot be opened and a file that
  is not JSON. A fresh file whose bytes are not UTF-8, such as one cut in the middle of a
  character, makes the load raise \<open>UnicodeDecodeError\<close>, which the handler for
  \<open>json.JSONDecodeError\<close> and \<open>OSError\<close> lets through, and \<open>research_niche\<close> with it.
\<close>

theorem load_cache_undecodable_raises:
  "load_cache (md5_hex quiet_world)
     ((files quiet_world)
        (cache_path (md5_hex quiet_world) ''fitness'' ''tiktok'' \<mapsto>
           \<lparr>mtime = 0, readable = True, body = Undecodable ''unexpected end of data''\<rparr>))
     60 ''fitness'' ''tiktok''
     = Inl (UnicodeDecodeError ''unexpected end of data'')
   \<and> fst (research_niche
        (quiet_world\<lparr>files := (files quiet_world)
           (cache_path (md5_hex quiet_world) ''fitness'' ''tiktok'' \<mapsto>
              \<lparr>mtime = 0, readable = True, body = Undecodable ''unexpected end of data''\<rparr>),
           clock_cache := 60\<rparr>) ''fitness'' ''tiktok'' [])
     = Inl (UnicodeDecodeError ''unexpected end of data'')"
  by (simp add: load_cache_def research_niche_def CACHE_MAX_AGE_HOURS_def Let_def)

section \<open>Two-pass strategy: when the refined text replaces the draft\<close>

text \<open>
  Claim C2, as the code has it. When the draft passes and the refine call returns a
  non-empty text, the refined text becomes the final strategy if and only if its length
  after stripping surrounding whitespace is more than half the length of the draft.
  Otherwise, also when it is exactly half, the draft is kept and the log ends with the
  line that says pass 2 was too short.
\<close>

theorem refined_replaces_draft:
  assumes "draft_reply w = Inr raw" and "raw \<noteq> []" and "100 \<le> length (strip raw)"
    and "refine_reply w = Inr refined" and "refined \<noteq> []"
  shows "final_strategy (fst (generate_strategy w lg))
           = Some (if length raw < 2 * length (strip refined) then refined else raw)
         \<and> snd (generate_strategy w lg) =
             lg @ [''Strategy Pass 1: Generating...'',
                   ''Pass 1: '' @ show_nat (length raw) @ '' chars.'',
                   ''Strategy Pass 2: Critique and refine...'',
                   if length raw < 2 * length (strip refined)
                   then ''Pass 2: '' @ show_nat (length refined) @ '' chars (refined).''
                   else ''Pass 2 too short. Using Pass 1.'']"
  unfolding generate_strategy_two_pass [OF assms]
  by (simp only: fst_conv snd_conv final_strategy_update simp_thms)

theorem refined_replaces_draft_witness:
  "draft_reply (quiet_world\<lparr>draft_reply := Inr (replicate 100 CHR ''a''),
                            refine_reply := Inr (replicate 60 CHR ''b'')\<rparr>)
     = Inr (replicate 100 CHR ''a'')
   \<and> replicate 100 CHR ''a'' \<noteq> []
   \<and> 100 \<le> length (strip (replicate 100 CHR ''a''))
   \<and> refine_reply (quiet_world\<lparr>draft_reply := Inr (replicate 100 CHR ''a''),
                               refine_reply := Inr (replicate 60 CHR ''b'')\<rparr>)
     = Inr (replicate 60 CHR ''b'')
   \<and> replicate 60 CHR ''b'' \<noteq> []
   \<and> final_strategy
        (fst (generate_strategy (quiet_world\<lparr>draft_reply := Inr (replicate 100 CHR ''a''),
                                           refine_reply := Inr (replicate 60 CHR ''b'')\<rparr>) []))
     = Some (replicate 60 CHR ''b'')"
proof -
  let ?w = "quiet_world\<lparr>draft_reply := Inr (replicate 100 CHR ''a''),
                         refine_reply := Inr (replicate 60 CHR ''b'')\<rparr>"
  have h1: "draft_reply ?w = Inr (replicate 100 CHR ''a'')" by simp
  have h2: "replicate 100 CHR ''a'' \<noteq> []" by simp
  have h3: "100 \<le> length (strip (replicate 100 CHR ''a''))" by code_simp
  have h4: "refine_reply ?w = Inr (replicate 60 CHR ''b'')" by simp
  have h5: "replicate 60 CHR ''b'' \<noteq> []" by simp
  have l: "length (strip (replicate 60 CHR ''b'')) = 60" by code_simp
  from refined_replaces_draft [OF h1 h2 h3 h4 h5, of "[]"]
  have "final_strategy (fst (generate_strategy ?w [])) = Some (replicate 60 CHR ''b'')"
    unfolding l by simp
  with h1 h2 h3 h4 h5 show ?thesis by (intro conjI)
qed

text \<open>
  Claim C2 as stated lets a refined text of at least half the length replace the draft.
  With a draft of 100 characters and a refined text of 50, the code keeps the draft.
\<close>

theorem refined_half_length_counterexample:
  "final_strategy
     (fst (generate_strategy (quiet_world\<lparr>draft_reply := Inr (replicate 100 CHR ''a''),
                                           refine_reply := Inr (replicate 50 CHR ''b'')\<rparr>) []))
     = Some (replicate 100 CHR ''a'')
   \<and> length (replicate 100 CHR ''a'') \<le> 2 * length (replicate 50 CHR ''b'')"
proof -
  let ?w = "quiet_world\<lparr>draft_reply := Inr (replicate 100 CHR ''a''),
                         refine_reply := Inr (replicate 50 CHR ''b'')\<rparr>"
  have h1: "draft_reply ?w = Inr (replicate 100 CHR ''a'')" by simp
  have h2: "replicate 100 CHR ''a'' \<noteq> []" by simp
  have h3: "100 \<le> length (strip (replicate 100 CHR ''a''))" by code_simp
  have h4: "refine_reply ?w = Inr (replicate 50 CHR ''b'')" by simp
  have h5: "replicate 50 CHR ''b'' \<noteq> []" by simp
  have l: "length (strip (replicate 50 CHR ''b'')) = 50" by code_simp
  have "final_strategy (fst (generate_strategy ?w [])) = Some (replicate 100 CHR ''a'')"
    unfolding generate_strategy_two_pass [OF h1 h2 h3 h4 h5, of "[]"] l
    by (simp add: final_strategy_update)
  then show ?thesis by simp
qed

section \<open>Section splitting: the spans between the headers\<close>

text \<open>
  Claim C9, as the code has it. For every strategy text, the boundaries are the matches
  that pattern search finds for the six named headers. With fewer than 3 of them the
  whole text is returned as the single section \<open>full_strategy\<close>. With at least 3,
  the sections are those of the located headers, and the text of each is the span from
  just after its header match to the start of the next located header (the end of the
  text for the last one), stripped of surrounding whitespace, then of leading colons and
  hyphens, then of whitespace again.
\<close>

theorem split_sections_spans:
  "set (boundaries raw) =
     {(st, key, en). \<exists>pat. (key, pat) \<in> set patterns \<and> search pat raw = Some (st, en)}
   \<and> (length (boundaries raw) < 3 \<longrightarrow> split_sections raw = [(''full_strategy'', raw)])
   \<and> (3 \<le> length (boundaries raw) \<longrightarrow>
        sorted (map fst (sort_key fst (boundaries raw)))
        \<and> fst ` set (split_sections raw) = key_of ` set (boundaries raw)
        \<and> (\<forall>i < length (boundaries raw).
              map_of (split_sections raw) (key_of (sort_key fst (boundaries raw) ! i))
                = Some (strip (lstrip_chars '':-'' (strip
                    (slice (snd (snd (sort_key fst (boundaries raw) ! i)))
                           (stop_of raw (sort_key fst (boundaries raw)) i) raw))))))"
proof -
  let ?bs = "sort_key fst (boundaries raw)"
  have a: "set (boundaries raw) =
     {(st, key, en). \<exists>pat. (key, pat) \<in> set patterns \<and> search pat raw = Some (st, en)}"
    unfolding boundaries_def by (rule locate_set)
  have b: "length (boundaries raw) < 3 \<longrightarrow> split_sections raw = [(''full_strategy'', raw)]"
    by (simp add: split_sections_def Let_def)
  have c: "3 \<le> length (boundaries raw) \<longrightarrow>
        sorted (map fst ?bs)
        \<and> fst ` set (split_sections raw) = key_of ` set (boundaries raw)
        \<and> (\<forall>i < length (boundaries raw).
              map_of (split_sections raw) (key_of (?bs ! i))
                = Some (strip (lstrip_chars '':-'' (strip
                    (slice (snd (snd (?bs ! i))) (stop_of raw ?bs i) raw)))))"
  proof
    assume n: "3 \<le> length (boundaries raw)"
    then have s: "split_sections raw = fill_sections raw ?bs []"
      by (simp add: split_sections_def Let_def)
    have k: "fst ` set (split_sections raw) = key_of ` set (boundaries raw)"
      unfolding s by (simp add: fill_sections_keys)
    have l: "\<forall>i < length (boundaries raw).
              map_of (split_sections raw) (key_of (?bs ! i))
                = Some (strip (lstrip_chars '':-'' (strip
                    (slice (snd (snd (?bs ! i))) (stop_of raw ?bs i) raw))))"
    proof (intro allI impI)
      fix i assume "i < length (boundaries raw)"
      then have i: "i < length ?bs" by simp
      from fill_sections_lookup [OF distinct_boundary_keys i, of raw "[]"]
      show "map_of (split_sections raw) (key_of (?bs ! i))
                = Some (strip (lstrip_chars '':-'' (strip
                    (slice (snd (snd (?bs ! i))) (stop_of raw ?bs i) raw))))"
        unfolding s section_text_def .
    qed
    show "sorted (map fst ?bs)
        \<and> fst ` set (split_sections raw) = key_of ` set (boundaries raw)
        \<and> (\<forall>i < length (boundaries raw).
              map_of (split_sections raw) (key_of (?bs ! i))
                = Some (strip (lstrip_chars '':-'' (strip
                    (slice (snd (snd (?bs ! i))) (stop_of raw ?bs i) raw)))))"
      using k l by simp
  qed
  from a b c show ?thesis by (intro conjI)
qed

theorem split_sections_spans_witness:
  "3 \<le> length (boundaries ''#1 strategic positioning: Bold CONTENT PILLARS- A OPTIMIZED HOOKS H'')
   \<and> fst ` set (split_sections
                  ''#1 strategic positioning: Bold CONTENT PILLARS- A OPTIMIZED HOOKS H'')
     = key_of ` set (boundaries
                  ''#1 strategic positioning: Bold CONTENT PILLARS- A OPTIMIZED HOOKS H'')"
proof -
  let ?raw = "''#1 strategic positioning: Bold CONTENT PILLARS- A OPTIMIZED HOOKS H''"
  have h: "3 \<le> length (boundaries ?raw)"
    unfolding boundaries_example by simp
  from split_sections_spans [of ?raw] h
  show ?thesis by blast
qed

text \<open>
  Claim C9 as stated makes the section the span itself. In the text below the span after
  the first header is \<open>: Bold\<close> between two spaces; the section is \<open>Bold\<close>.
\<close>

theorem split_sections_trimmed_counterexample:
  "map_of (split_sections
            ''#1 strategic positioning: Bold CONTENT PILLARS- A OPTIMIZED HOOKS H'')
     ''positioning'' = Some ''Bold''
   \<and> boundaries ''#1 strategic positioning: Bold CONTENT PILLARS- A OPTIMIZED HOOKS H''
     = [(0, ''positioning'', 24), (31, ''pillars'', 46), (50, ''hooks'', 65)]
   \<and> slice 24 31 ''#1 strategic positioning: Bold CONTENT PILLARS- A OPTIMIZED HOOKS H''
     = '': Bold ''"
proof -
  have "slice 24 31 ''#1 strategic positioning: Bold CONTENT PILLARS- A OPTIMIZED HOOKS H''
     = '': Bold ''"
    by code_simp
  then show ?thesis
    unfolding split_sections_example boundaries_example by simp
qed

section \<open>Pipeline: blank inputs\<close>

text \<open>
  Claim C10. Whenever one of the four inputs niche, platform, audience and goal is empty
  or consists of whitespace only, the pipeline raises \<open>ValueError\<close>, naming an input,
  before the backend check and before any other call: no progress message is sent, no
  stage is entered, no result dictionary is created and the files are untouched.
\<close>

theorem blank_input_raises_before_any_stage:
  assumes "(\<forall>c \<in> set niche. isspace c) \<or> (\<forall>c \<in> set platform. isspace c)
           \<or> (\<forall>c \<in> set audience. isspace c) \<or> (\<forall>c \<in> set goal. isspace c)"
  shows "\<exists>name \<in> {''niche'', ''platform'', ''audience'', ''goal''}.
           run_pipeline w niche platform audience goal =
             \<lparr>outcome = Inl (ValueError (name @ '' cannot be empty.'')), calls_made = [],
              local_result = None, files_left = files w\<rparr>"
proof -
  let ?inputs = "[(''niche'', niche), (''platform'', platform),
                  (''audience'', audience), (''goal'', goal)]"
  have "blank niche \<or> blank platform \<or> blank audience \<or> blank goal"
    using assms by (simp only: blank_iff)
  then have "\<exists>p \<in> set ?inputs. blank (snd p)" by auto
  from validate_blank [OF this]
  obtain name where n: "name \<in> fst ` set ?inputs"
    and v: "validate ?inputs = Some (ValueError (name @ '' cannot be empty.''))"
    by blast
  have "name \<in> {''niche'', ''platform'', ''audience'', ''goal''}"
    using n by auto
  with run_pipeline_rejects [OF v, of w] show ?thesis by blast
qed

theorem blank_input_raises_before_any_stage_witness:
  "list_all isspace ''  ''
   \<and> outcome (run_pipeline quiet_world ''fitness'' ''  '' ''teens'' ''sales'')
       = Inl (ValueError ''platform cannot be empty.'')
   \<and> calls_made (run_pipeline quiet_world ''fitness'' ''  '' ''teens'' ''sales'') = []
   \<and> local_result (run_pipeline quiet_world ''fitness'' ''  '' ''teens'' ''sales'') = None"
proof -
  have l: "list_all isspace ''  ''" by code_simp
  then have h: "\<forall>c \<in> set ''  ''. isspace c" by (simp only: list_all_iff)
  then have "(\<forall>c \<in> set ''fitness''. isspace c) \<or> (\<forall>c \<in> set ''  ''. isspace c)
           \<or> (\<forall>c \<in> set ''teens''. isspace c) \<or> (\<forall>c \<in> set ''sales''. isspace c)"
    by (intro disjI2 disjI1)
  from blank_input_raises_before_any_stage [OF this, of quiet_world]
  obtain name where
    r: "run_pipeline quiet_world ''fitness'' ''  '' ''teens'' ''sales'' =
          \<lparr>outcome = Inl (ValueError (name @ '' cannot be empty.'')), calls_made = [],
           local_result = None, files_left = files quiet_world\<rparr>"
    by blast
  have c: "calls_made (run_pipeline quiet_world ''fitness'' ''  '' ''teens'' ''sales'') = []"
    and n: "local_result (run_pipeline quiet_world ''fitness'' ''  '' ''teens'' ''sales'') = None"
    unfolding r by simp_all
  from l blank_platform_example c n show ?thesis by (intro conjI)
qed

section \<open>Pipeline: what a failure carries\<close>

text \<open>
  Claim C3 says that a fatal failure reaches the caller with the partially filled result,
  its \<open>meta.error\<close> and \<open>meta.elapsed_seconds\<close> set and the log attached. The
  handler does fill the dictionary and the log, and then re-raises the exception it
  caught: the caller gets that exception, which holds a message only, and the dictionary
  stays behind in the function. With valid inputs and the backend down the caller gets
  the \<open>ConnectionError\<close>; the error text and the log with its \<open>ERROR\<close> line are in
  the local dictionary alone. Every failure after validation leaves the dictionary in
  that state (\<open>run_failure_local\<close>), and a result that is returned has no
  \<open>meta.error\<close> (\<open>run_success_no_error\<close>).
\<close>

theorem backend_down_raises_without_result:
  "outcome (run_pipeline quiet_world ''fitness'' ''tiktok'' ''teens'' ''sales'')
     = Inl (ConnectionError
        ''Ollama is not running or qwen2.5-coder:7b is not installed. Start Ollama with: ollama serve'')
   \<and> map_option (\<lambda>r. meta_error (meta r))
        (local_result (run_pipeline quiet_world ''fitness'' ''tiktok'' ''teens'' ''sales''))
     = Some (Some
        ''Ollama is not running or qwen2.5-coder:7b is not installed. Start Ollama with: ollama serve'')
   \<and> map_option pipeline_log
        (local_result (run_pipeline quiet_world ''fitness'' ''tiktok'' ''teens'' ''sales''))
     = Some [''Checking Ollama availability...'',
             ''ERROR: Ollama is not running or qwen2.5-coder:7b is not installed. Start Ollama with: ollama serve'']"
  by code_simp


end
